theory Spec2Isabelle
  imports Main
begin

text \<open>
  A shallow embedding of \<open>config/config.go\<close> of mongodb-tls-certs: the certificate
  type table \<open>getCertType\<close> and \<open>GetConfig\<close>, which reads a YAML file into the
  package variable \<open>Config\<close>, resolves directories and extensions, classifies each
  certificate, fills in its subject, and links it to its issuer. The file system, the
  YAML parser and the iteration order of Go maps are parameters of the model.
\<close>

section \<open>Constants and certificate classification (config.go, lines 12-51)\<close>

definition defaultPublicDirectory :: string where
  "defaultPublicDirectory = ''tls''"

definition defaultPrivateDirectory :: string where
  "defaultPrivateDirectory = ''tls/private''"

definition defaultExtensionKey :: string where
  "defaultExtensionKey = ''key''"

definition defaultExtensionCert :: string where
  "defaultExtensionCert = ''pem''"

text \<open>The certificate types are the \<open>iota\<close> constants 0 to 4.\<close>

definition RootCACert :: int where
  "RootCACert = 0"

definition IntermediateCACert :: int where
  "IntermediateCACert = 1"

definition OCSPSigningCert :: int where
  "OCSPSigningCert = 2"

definition ServerCert :: int where
  "ServerCert = 3"

definition ClientCert :: int where
  "ClientCert = 4"

record certInfo =
  ctype :: int
  isCA :: bool
  isSelfSigned :: bool

text \<open>
  Go errors here are values built by \<open>fmt.Errorf\<close>. Each call site of the file is one
  constructor, carrying the arguments in the order in which the call passes them to the
  format string; \<open>Error\<close> below renders the message the way the format string does.
  \<open>ReadError\<close> and \<open>ParseError\<close> carry the text of the underlying error (\<open>%v\<close>).
\<close>

datatype error =
    ReadError string string
  | ParseError string string
  | InvalidDirectoryEntry string string
  | InvalidExtensionEntry string string
  | InvalidCertificateType string
  | InvalidType string string
  | SelfSignedWithIssuer string
  | MissingIssuer string string
  | IssuerNotCA string string

fun Error :: "error \<Rightarrow> string" where
  "Error (ReadError configFilename err) =
     ''error reading config file '' @ [CHR 0x27] @ configFilename @ [CHR 0x27] @ '': '' @ err"
| "Error (ParseError configFilename err) =
     ''error parsing YAML config file '' @ [CHR 0x27] @ configFilename @ [CHR 0x27] @ '': '' @ err"
| "Error (InvalidDirectoryEntry a b) =
     ''invalid entry '' @ a @ '' in directories section of config file '' @ b"
| "Error (InvalidExtensionEntry a b) =
     ''invalid entry '' @ a @ '' in extensions section of config file '' @ b"
| "Error (InvalidCertificateType typeString) =
     ''invalid certificate type '' @ [CHR 0x27] @ typeString @ [CHR 0x27]"
| "Error (InvalidType a b) = ''invalid type '' @ a @ '' for certificate '' @ b"
| "Error (SelfSignedWithIssuer certName) =
     ''self-signed certificate '' @ certName @ '' must not have issuer''"
| "Error (MissingIssuer certName issuer) =
     ''certificate '' @ certName @ '' has missing issuer '' @ issuer"
| "Error (IssuerNotCA certName issuer) =
     ''certificate '' @ certName @ '' has issuer '' @ issuer @ '' that is not a CA''"

definition theMap :: "string \<rightharpoonup> certInfo" where
  "theMap =
     [''rootCA'' \<mapsto> \<lparr>ctype = RootCACert, isCA = True, isSelfSigned = True\<rparr>,
      ''intermediateCA'' \<mapsto> \<lparr>ctype = IntermediateCACert, isCA = True, isSelfSigned = False\<rparr>,
      ''OCSPSigning'' \<mapsto> \<lparr>ctype = OCSPSigningCert, isCA = False, isSelfSigned = False\<rparr>,
      ''server'' \<mapsto> \<lparr>ctype = ServerCert, isCA = False, isSelfSigned = False\<rparr>,
      ''client'' \<mapsto> \<lparr>ctype = ClientCert, isCA = False, isSelfSigned = False\<rparr>]"

definition getCertType :: "string \<Rightarrow> error + certInfo" where
  "getCertType typeString =
     (case theMap typeString of
        Some certType \<Rightarrow> Inr certType
      | None \<Rightarrow> Inl (InvalidCertificateType typeString))"

section \<open>The configuration types (lines 53-95)\<close>

record SubjectType =
  O' :: string
  OU :: string
  CN :: string

text \<open>
  A \<open>*Cert\<close> is \<open>nil\<close> or the address of a \<open>Cert\<close> object on the heap. Go is memory
  safe, so every address holds an object: the heap is a total function. The fields
  \<open>PrivateKey\<close> and \<open>Certificate\<close> are opaque handles that this file neither reads nor
  writes.
\<close>

datatype ref = nil | Addr nat

record Cert =
  TypeString :: string
  Issuer :: string
  Subject :: SubjectType
  Hosts :: "string list"
  Type :: int
  IsCA :: bool
  IsSelfSigned :: bool
  PrivateKey :: ref
  Certificate :: ref
  IssuerCert :: ref

text \<open>
  The struct \<open>Type\<close>. A Go map is a finite partial function; a \<open>nil\<close> map behaves as
  the empty map in everything this file does with it (\<open>range\<close> and lookup), and is
  modelled as the empty map.
\<close>

record Type =
  Directories :: "string \<rightharpoonup> string"
  Extensions :: "string \<rightharpoonup> string"
  Subject :: SubjectType
  KeyFiles :: "string list"
  Certificates :: "string \<rightharpoonup> ref"
  Combos :: "string \<rightharpoonup> string list"
  PublicDirectory :: string
  PrivateDirectory :: string
  ExtensionKey :: string
  ExtensionCert :: string

text \<open>
  The program state that \<open>GetConfig\<close> works on: the global variable \<open>Config\<close> and the
  heap of \<open>Cert\<close> objects that the entries of \<open>Config.Certificates\<close> point to.
\<close>

record state =
  Config :: Type
  heap :: "nat \<Rightarrow> Cert"

text \<open>The zero values of the three struct types, and the state of a fresh process.\<close>

definition zero_Cert :: Cert where
  "zero_Cert =
     \<lparr>TypeString = [], Issuer = [], Subject = \<lparr>O' = [], OU = [], CN = []\<rparr>, Hosts = [],
      Type = 0, IsCA = False, IsSelfSigned = False, PrivateKey = nil, Certificate = nil,
      IssuerCert = nil\<rparr>"

definition zero_Type :: Type where
  "zero_Type =
     \<lparr>Directories = Map.empty, Extensions = Map.empty,
      Subject = \<lparr>O' = [], OU = [], CN = []\<rparr>, KeyFiles = [],
      Certificates = Map.empty, Combos = Map.empty,
      PublicDirectory = [], PrivateDirectory = [], ExtensionKey = [], ExtensionCert = []\<rparr>"

definition zero_state :: state where
  "zero_state = \<lparr>Config = zero_Type, heap = (\<lambda>p. zero_Cert)\<rparr>"

section \<open>The environment of a call\<close>

text \<open>
  What \<open>GetConfig\<close> takes from outside this file: \<open>filepath.Clean\<close>, \<open>os.ReadFile\<close>
  (the bytes or the text of an error), \<open>yaml.Unmarshal\<close> into \<open>&Config\<close> (the state it
  leaves and the text of an error, if any), and the order in which each of the four
  \<open>range\<close> loops visits the keys of its map. Go leaves that order unspecified and it may
  differ from one loop to the next, so each loop has its own list of keys.
\<close>

record env =
  Clean :: "string \<Rightarrow> string"
  ReadFile :: "string \<Rightarrow> string + string"
  Unmarshal :: "string \<Rightarrow> state \<Rightarrow> state \<times> string option"
  range_Directories :: "string list"
  range_Extensions :: "string list"
  range_Certificates1 :: "string list"
  range_Certificates2 :: "string list"

text \<open>A list of keys is an iteration order of a map when it holds each key once.\<close>

definition range_of :: "'k list \<Rightarrow> ('k \<rightharpoonup> 'v) \<Rightarrow> bool" where
  "range_of ks m \<longleftrightarrow> distinct ks \<and> set ks = dom m"

section \<open>GetConfig (lines 98-180)\<close>

text \<open>
  A call returns \<open>nil\<close> (\<open>Success\<close>), returns an error (\<open>Failure\<close>), or panics on a
  \<open>nil\<close> pointer dereference (\<open>Panic\<close>). The state is returned as the call leaves it.
\<close>

datatype outcome = Success | Failure error | Panic

text \<open>
  A \<open>range\<close> loop whose body may \<open>return\<close>: the body is run on each key in turn and the
  loop stops at the first outcome that is not \<open>Success\<close>. A key of the order that is
  not in the map is skipped by each body below (it is never met when the order is an
  iteration order of the map).
\<close>

fun for_range ::
  "('k \<Rightarrow> state \<Rightarrow> state \<times> outcome) \<Rightarrow> 'k list \<Rightarrow> state \<Rightarrow> state \<times> outcome" where
  "for_range body [] s = (s, Success)"
| "for_range body (k # ks) s =
     (case body k s of
        (s', Success) \<Rightarrow> for_range body ks s'
      | (s', out) \<Rightarrow> (s', out))"

definition seq :: "state \<times> outcome \<Rightarrow> (state \<Rightarrow> state \<times> outcome) \<Rightarrow> state \<times> outcome" where
  "seq r f = (case r of (s, Success) \<Rightarrow> f s | (s, out) \<Rightarrow> (s, out))"

text \<open>Body of the loop over \<open>Config.Directories\<close> (lines 111-120).\<close>

definition set_Directory :: "string \<Rightarrow> string \<Rightarrow> state \<Rightarrow> state \<times> outcome" where
  "set_Directory configFilename dirName s =
     (case Directories (Config s) dirName of
        None \<Rightarrow> (s, Success)
      | Some dir \<Rightarrow>
          if dirName = ''public'' then
            (s\<lparr>Config := (Config s)\<lparr>PublicDirectory := dir\<rparr>\<rparr>, Success)
          else if dirName = ''private'' then
            (s\<lparr>Config := (Config s)\<lparr>PrivateDirectory := dir\<rparr>\<rparr>, Success)
          else (s, Failure (InvalidDirectoryEntry dirName configFilename)))"

text \<open>
  Body of the loop over \<open>Config.Extensions\<close> (lines 126-135). The second argument of
  its error is the entry's value \<open>ext\<close>, as in the source.
\<close>

definition set_Extension :: "string \<Rightarrow> state \<Rightarrow> state \<times> outcome" where
  "set_Extension extName s =
     (case Extensions (Config s) extName of
        None \<Rightarrow> (s, Success)
      | Some ext \<Rightarrow>
          if extName = ''key'' then
            (s\<lparr>Config := (Config s)\<lparr>ExtensionKey := ext\<rparr>\<rparr>, Success)
          else if extName = ''certificate'' then
            (s\<lparr>Config := (Config s)\<lparr>ExtensionCert := ext\<rparr>\<rparr>, Success)
          else (s, Failure (InvalidExtensionEntry extName ext)))"

text \<open>
  Lines 152-160: the three assignments to \<open>cert.Subject\<close>, one after the other, from
  \<open>Config.Subject\<close>.
\<close>

definition fill_Subject :: "SubjectType \<Rightarrow> SubjectType \<Rightarrow> SubjectType" where
  "fill_Subject subject dflt =
     (let s1 = (if O' subject = [] then subject\<lparr>O' := O' dflt\<rparr> else subject);
          s2 = (if OU s1 = [] then s1\<lparr>OU := OU dflt\<rparr> else s1);
          s3 = (if CN s2 = [] then s2\<lparr>CN := CN dflt\<rparr> else s2)
      in s3)"

text \<open>
  Lines 145-160 on one \<open>Cert\<close> object: the error of \<open>getCertType\<close> is dropped and a new
  one is made from \<open>certName\<close> and \<open>cert.TypeString\<close>, in that order.
\<close>

definition setup_Cert :: "Type \<Rightarrow> string \<Rightarrow> Cert \<Rightarrow> error + Cert" where
  "setup_Cert cfg certName cert =
     (case getCertType (TypeString cert) of
        Inl err \<Rightarrow> Inl (InvalidType certName (TypeString cert))
      | Inr certType \<Rightarrow>
          Inr (cert\<lparr>Type := ctype certType,
                    IsCA := isCA certType,
                    IsSelfSigned := isSelfSigned certType,
                    Cert.Subject := fill_Subject (Cert.Subject cert) (Type.Subject cfg)\<rparr>))"

text \<open>Body of the first loop over \<open>Config.Certificates\<close> (lines 144-161).\<close>

definition setup_Certificate :: "string \<Rightarrow> state \<Rightarrow> state \<times> outcome" where
  "setup_Certificate certName s =
     (case Certificates (Config s) certName of
        None \<Rightarrow> (s, Success)
      | Some nil \<Rightarrow> (s, Panic)
      | Some (Addr p) \<Rightarrow>
          (case setup_Cert (Config s) certName (heap s p) of
             Inl err \<Rightarrow> (s, Failure err)
           | Inr cert \<Rightarrow> (s\<lparr>heap := (heap s)(p := cert)\<rparr>, Success)))"

text \<open>
  Body of the second loop (lines 162-178). \<open>cert.IssuerCert\<close> is assigned before the
  lookup's \<open>ok\<close> is tested, so a missing issuer stores \<open>nil\<close>.
\<close>

definition link_Certificate :: "string \<Rightarrow> state \<Rightarrow> state \<times> outcome" where
  "link_Certificate certName s =
     (case Certificates (Config s) certName of
        None \<Rightarrow> (s, Success)
      | Some nil \<Rightarrow> (s, Panic)
      | Some (Addr p) \<Rightarrow>
          if IsSelfSigned (heap s p) then
            (if Issuer (heap s p) \<noteq> [] then (s, Failure (SelfSignedWithIssuer certName))
             else (s, Success))
          else
            (case Certificates (Config s) (Issuer (heap s p)) of
               None \<Rightarrow>
                 (s\<lparr>heap := (heap s)(p := (heap s p)\<lparr>IssuerCert := nil\<rparr>)\<rparr>,
                  Failure (MissingIssuer certName (Issuer (heap s p))))
             | Some issuerCert \<Rightarrow>
                 (let s' = s\<lparr>heap := (heap s)(p := (heap s p)\<lparr>IssuerCert := issuerCert\<rparr>)\<rparr>
                  in case issuerCert of
                       nil \<Rightarrow> (s', Panic)
                     | Addr q \<Rightarrow>
                         if \<not> IsCA (heap s' q) then
                           (s', Failure (IssuerNotCA certName (Issuer (heap s' p))))
                         else (s', Success))))"

definition GetConfig :: "env \<Rightarrow> string option \<Rightarrow> state \<Rightarrow> state \<times> outcome" where
  "GetConfig e configFilename s =
     (case configFilename of
        None \<Rightarrow> (s, Panic)
      | Some fn \<Rightarrow>
          (case ReadFile e (Clean e fn) of
             Inl err \<Rightarrow> (s, Failure (ReadError fn err))
           | Inr configFile \<Rightarrow>
               (case Unmarshal e configFile s of
                  (s1, Some err) \<Rightarrow> (s1, Failure (ParseError fn err))
                | (s1, None) \<Rightarrow>
                    seq (for_range (set_Directory fn) (range_Directories e)
                           (s1\<lparr>Config := (Config s1)
                                 \<lparr>PublicDirectory := defaultPublicDirectory,
                                  PrivateDirectory := defaultPrivateDirectory\<rparr>\<rparr>))
                      (\<lambda>s2.
                    seq (for_range set_Extension (range_Extensions e)
                           (s2\<lparr>Config := (Config s2)
                                 \<lparr>ExtensionKey := defaultExtensionKey,
                                  ExtensionCert := defaultExtensionCert\<rparr>\<rparr>))
                      (\<lambda>s3.
                    seq (for_range setup_Certificate (range_Certificates1 e) s3)
                      (\<lambda>s4.
                    for_range link_Certificate (range_Certificates2 e) s4))))))"

section \<open>Predicates on documents and states\<close>

text \<open>
  The document is the state that \<open>yaml.Unmarshal\<close> leaves. \<open>frame s s'\<close> says that
  \<open>s'\<close> still holds the document of \<open>s\<close>: the fields that the YAML fills in and that
  \<open>GetConfig\<close> reads.
\<close>

definition frame :: "state \<Rightarrow> state \<Rightarrow> bool" where
  "frame s s' \<longleftrightarrow>
     Directories (Config s') = Directories (Config s) \<and>
     Extensions (Config s') = Extensions (Config s) \<and>
     Type.Subject (Config s') = Type.Subject (Config s) \<and>
     Certificates (Config s') = Certificates (Config s) \<and>
     (\<forall>p. TypeString (heap s' p) = TypeString (heap s p) \<and>
          Issuer (heap s' p) = Issuer (heap s p))"

text \<open>The three computed fields of the object at \<open>p\<close> are those of its type string.\<close>

definition resolved :: "state \<Rightarrow> nat \<Rightarrow> bool" where
  "resolved s p \<longleftrightarrow>
     getCertType (TypeString (heap s p)) =
       Inr \<lparr>ctype = Type (heap s p), isCA = IsCA (heap s p),
            isSelfSigned = IsSelfSigned (heap s p)\<rparr>"

text \<open>
  The object at \<open>p\<close> is linked: self-signed with no issuer name, or its issuer name is
  an entry of the map, that entry is a CA, and \<open>IssuerCert\<close> is that entry's pointer.
\<close>

definition link_ok :: "state \<Rightarrow> nat \<Rightarrow> bool" where
  "link_ok s p \<longleftrightarrow>
     (if IsSelfSigned (heap s p) then Issuer (heap s p) = []
      else (case Certificates (Config s) (Issuer (heap s p)) of
              Some (Addr q) \<Rightarrow> IsCA (heap s q) \<and> IssuerCert (heap s p) = Addr q
            | _ \<Rightarrow> False))"

text \<open>
  The two states have the same \<open>Config\<close>, and their objects agree on the fields that
  the second loop reads.
\<close>

definition same_resolved :: "state \<Rightarrow> state \<Rightarrow> bool" where
  "same_resolved s s' \<longleftrightarrow>
     Config s' = Config s \<and>
     (\<forall>p. TypeString (heap s' p) = TypeString (heap s p) \<and>
          Issuer (heap s' p) = Issuer (heap s p) \<and>
          Type (heap s' p) = Type (heap s p) \<and>
          IsCA (heap s' p) = IsCA (heap s p) \<and>
          IsSelfSigned (heap s' p) = IsSelfSigned (heap s p))"

text \<open>
  Two conditions on one entry of a document \<open>d\<close>, read off its type strings.
  \<open>recognised\<close>: the entry named \<open>certName\<close>, if there is one, is not \<open>nil\<close> and its
  type string is in the table, so the first loop passes it. \<open>passes_link\<close>: it also
  passes the check of the second loop, that is, it is a root without issuer name, or
  its issuer name is an entry whose type is a CA.
\<close>

definition recognised :: "state \<Rightarrow> string \<Rightarrow> bool" where
  "recognised d certName =
     (case Certificates (Config d) certName of
        None \<Rightarrow> True
      | Some nil \<Rightarrow> False
      | Some (Addr p) \<Rightarrow>
          (case getCertType (TypeString (heap d p)) of
             Inl err \<Rightarrow> False
           | Inr certType \<Rightarrow> True))"

definition passes_link :: "state \<Rightarrow> string \<Rightarrow> bool" where
  "passes_link d certName =
     (case Certificates (Config d) certName of
        None \<Rightarrow> True
      | Some nil \<Rightarrow> False
      | Some (Addr p) \<Rightarrow>
          (case getCertType (TypeString (heap d p)) of
             Inl err \<Rightarrow> False
           | Inr certType \<Rightarrow>
               if isSelfSigned certType then Issuer (heap d p) = []
               else (case Certificates (Config d) (Issuer (heap d p)) of
                       None \<Rightarrow> False
                     | Some nil \<Rightarrow> False
                     | Some (Addr q) \<Rightarrow>
                         (case getCertType (TypeString (heap d q)) of
                            Inl err \<Rightarrow> False
                          | Inr issuerType \<Rightarrow> isCA issuerType))))"

text \<open>The state \<open>s\<close> holds the document \<open>d\<close> with every entry resolved.\<close>

definition all_resolved :: "state \<Rightarrow> state \<Rightarrow> bool" where
  "all_resolved d s \<longleftrightarrow>
     frame d s \<and>
     (\<forall>k r. Certificates (Config d) k = Some r \<longrightarrow> (\<exists>p. r = Addr p \<and> resolved s p))"

section \<open>Example documents\<close>

text \<open>
  An environment in which the file is read and parses to the document \<open>d\<close>, with the
  four iteration orders given.
\<close>

definition parsing_env ::
  "state \<Rightarrow> string list \<Rightarrow> string list \<Rightarrow> string list \<Rightarrow> string list \<Rightarrow> env" where
  "parsing_env d ds es cs1 cs2 =
     \<lparr>Clean = (\<lambda>path. path), ReadFile = (\<lambda>path. Inr []),
      Unmarshal = (\<lambda>configFile s. (d, None)),
      range_Directories = ds, range_Extensions = es,
      range_Certificates1 = cs1, range_Certificates2 = cs2\<rparr>"

text \<open>Two intermediate CAs, each the issuer of the other.\<close>

definition cycle_doc :: state where
  "cycle_doc =
     \<lparr>Config = zero_Type\<lparr>Certificates := [''A'' \<mapsto> Addr 0, ''B'' \<mapsto> Addr 1]\<rparr>,
      heap = (\<lambda>p. zero_Cert)
        (0 := zero_Cert\<lparr>TypeString := ''intermediateCA'', Issuer := ''B''\<rparr>,
         1 := zero_Cert\<lparr>TypeString := ''intermediateCA'', Issuer := ''A''\<rparr>)\<rparr>"

text \<open>Scenario A: a root CA and a server certificate issued by it.\<close>

definition scenario_A :: state where
  "scenario_A =
     \<lparr>Config = zero_Type\<lparr>Certificates := [''root'' \<mapsto> Addr 0, ''web'' \<mapsto> Addr 1]\<rparr>,
      heap = (\<lambda>p. zero_Cert)
        (0 := zero_Cert\<lparr>TypeString := ''rootCA''\<rparr>,
         1 := zero_Cert\<lparr>TypeString := ''server'', Issuer := ''root''\<rparr>)\<rparr>"

text \<open>Scenario B: the server's issuer is a client certificate.\<close>

definition scenario_B :: state where
  "scenario_B =
     \<lparr>Config = zero_Type\<lparr>Certificates :=
        [''root'' \<mapsto> Addr 0, ''cli'' \<mapsto> Addr 1, ''web'' \<mapsto> Addr 2]\<rparr>,
      heap = (\<lambda>p. zero_Cert)
        (0 := zero_Cert\<lparr>TypeString := ''rootCA''\<rparr>,
         1 := zero_Cert\<lparr>TypeString := ''client'', Issuer := ''root''\<rparr>,
         2 := zero_Cert\<lparr>TypeString := ''server'', Issuer := ''cli''\<rparr>)\<rparr>"

text \<open>Scenario C: a root CA that names an issuer.\<close>

definition scenario_C :: state where
  "scenario_C =
     \<lparr>Config = zero_Type\<lparr>Certificates := [''root'' \<mapsto> Addr 0]\<rparr>,
      heap = (\<lambda>p. zero_Cert)
        (0 := zero_Cert\<lparr>TypeString := ''rootCA'', Issuer := ''other''\<rparr>)\<rparr>"

text \<open>Scenario D: the server's issuer name is not in the map.\<close>

definition scenario_D :: state where
  "scenario_D =
     \<lparr>Config = zero_Type\<lparr>Certificates := [''root'' \<mapsto> Addr 0, ''web'' \<mapsto> Addr 1]\<rparr>,
      heap = (\<lambda>p. zero_Cert)
        (0 := zero_Cert\<lparr>TypeString := ''rootCA''\<rparr>,
         1 := zero_Cert\<lparr>TypeString := ''server'', Issuer := ''ca''\<rparr>)\<rparr>"

text \<open>A server certificate that leaves the issuer out, beside a root CA.\<close>

definition no_issuer_doc :: state where
  "no_issuer_doc =
     \<lparr>Config = zero_Type\<lparr>Certificates := [''root'' \<mapsto> Addr 0, ''web'' \<mapsto> Addr 1]\<rparr>,
      heap = (\<lambda>p. zero_Cert)
        (0 := zero_Cert\<lparr>TypeString := ''rootCA''\<rparr>,
         1 := zero_Cert\<lparr>TypeString := ''server''\<rparr>)\<rparr>"

text \<open>A single certificate, of a type that is not in the table.\<close>

definition mistyped_doc :: state where
  "mistyped_doc =
     \<lparr>Config = zero_Type\<lparr>Certificates := [''signer'' \<mapsto> Addr 0]\<rparr>,
      heap = (\<lambda>p. zero_Cert)(0 := zero_Cert\<lparr>TypeString := ''OCSP''\<rparr>)\<rparr>"

text \<open>Documents with two defects each.\<close>

definition missing_and_mistyped :: state where
  "missing_and_mistyped =
     \<lparr>Config = zero_Type\<lparr>Certificates := [''web'' \<mapsto> Addr 0, ''signer'' \<mapsto> Addr 1]\<rparr>,
      heap = (\<lambda>p. zero_Cert)
        (0 := zero_Cert\<lparr>TypeString := ''server'', Issuer := ''ca''\<rparr>,
         1 := zero_Cert\<lparr>TypeString := ''OCSP''\<rparr>)\<rparr>"

definition scenario_B_backup :: state where
  "scenario_B_backup =
     scenario_B\<lparr>Config := (Config scenario_B)\<lparr>Directories := [''backup'' \<mapsto> ''bak'']\<rparr>\<rparr>"

definition scenario_C_zip :: state where
  "scenario_C_zip =
     scenario_C\<lparr>Config := (Config scenario_C)\<lparr>Extensions := [''zip'' \<mapsto> ''z'']\<rparr>\<rparr>"

definition two_without_issuer :: state where
  "two_without_issuer =
     \<lparr>Config = zero_Type\<lparr>Certificates := [''web1'' \<mapsto> Addr 0, ''web2'' \<mapsto> Addr 1]\<rparr>,
      heap = (\<lambda>p. zero_Cert)
        (0 := zero_Cert\<lparr>TypeString := ''server''\<rparr>,
         1 := zero_Cert\<lparr>TypeString := ''client''\<rparr>)\<rparr>"

text \<open>An unknown key in each of the two sections, and one override in each.\<close>

definition backup_and_zip :: state where
  "backup_and_zip =
     \<lparr>Config = zero_Type\<lparr>Directories := [''backup'' \<mapsto> ''bak''],
                          Extensions := [''zip'' \<mapsto> ''z'']\<rparr>,
      heap = (\<lambda>p. zero_Cert)\<rparr>"

definition overrides_doc :: state where
  "overrides_doc =
     \<lparr>Config = zero_Type\<lparr>Directories := [''private'' \<mapsto> ''secret''],
                          Extensions := [''certificate'' \<mapsto> ''crt'']\<rparr>,
      heap = (\<lambda>p. zero_Cert)\<rparr>"

definition zip_doc :: state where
  "zip_doc =
     \<lparr>Config = zero_Type\<lparr>Extensions := [''zip'' \<mapsto> ''z'']\<rparr>, heap = (\<lambda>p. zero_Cert)\<rparr>"

text \<open>An environment in which the file cannot be read.\<close>

definition unreadable_env :: env where
  "unreadable_env =
     \<lparr>Clean = (\<lambda>path. path), ReadFile = (\<lambda>path. Inl ''no such file or directory''),
      Unmarshal = (\<lambda>configFile s. (s, None)),
      range_Directories = [], range_Extensions = [],
      range_Certificates1 = [], range_Certificates2 = []\<rparr>"

section \<open>Loops\<close>

lemma seq_simps:
  "seq (s, Success) f = f s"
  "seq (s, Failure err) f = (s, Failure err)"
  "seq (s, Panic) f = (s, Panic)"
  by (simp_all add: seq_def)

lemma seq_Success_iff:
  "seq r f = (s', Success) \<longleftrightarrow> (\<exists>s. r = (s, Success) \<and> f s = (s', Success))"
  by (cases r; cases "snd r") (auto simp: seq_def)

lemma for_range_append:
  "for_range body (xs @ ys) s = seq (for_range body xs s) (for_range body ys)"
  by (induction xs arbitrary: s) (auto simp: seq_def split: prod.splits outcome.splits)

lemma for_range_preserves:
  assumes step: "\<And>k s s' out. P s \<Longrightarrow> body k s = (s', out) \<Longrightarrow> P s'"
    and "P s" and "for_range body ks s = (s', out)"
  shows "P s'"
  using assms(2,3)
proof (induction ks arbitrary: s)
  case Nil
  then show ?case by simp
next
  case (Cons k ks)
  obtain s1 o1 where b: "body k s = (s1, o1)" by (cases "body k s")
  have P1: "P s1" using step [OF Cons.prems(1) b] .
  show ?case
  proof (cases o1)
    case Success
    with b Cons.prems(2) have "for_range body ks s1 = (s', out)" by simp
    from Cons.IH [OF P1 this] show ?thesis .
  next
    case (Failure e)
    with b Cons.prems(2) P1 show ?thesis by simp
  next
    case Panic
    with b Cons.prems(2) P1 show ?thesis by simp
  qed
qed

lemma for_range_Success_all:
  assumes est: "\<And>k s s'. body k s = (s', Success) \<Longrightarrow> Q k s'"
    and pres: "\<And>k k' s s' out. Q k s \<Longrightarrow> body k' s = (s', out) \<Longrightarrow> Q k s'"
    and run: "for_range body ks s = (s', Success)"
  shows "\<forall>k\<in>set ks. Q k s'"
  using run
proof (induction ks arbitrary: s)
  case Nil
  then show ?case by simp
next
  case (Cons k ks)
  obtain s1 o1 where b: "body k s = (s1, o1)" by (cases "body k s")
  with Cons.prems have o1: "o1 = Success" and rest: "for_range body ks s1 = (s', Success)"
    by (cases o1; simp)+
  have "Q k s1" using est b o1 by simp
  then have "Q k s'"
    using for_range_preserves [where P = "Q k" and body = body, OF _ _ rest] pres by blast
  with Cons.IH [OF rest] show ?case by simp
qed

lemma frame_refl: "frame s s"
  by (simp add: frame_def)

lemma frame_trans: "frame s s' \<Longrightarrow> frame s' s'' \<Longrightarrow> frame s s''"
  by (simp add: frame_def)

lemma same_resolved_refl: "same_resolved s s"
  by (simp add: same_resolved_def)

lemma same_resolved_trans: "same_resolved s s' \<Longrightarrow> same_resolved s' s'' \<Longrightarrow> same_resolved s s''"
  by (simp add: same_resolved_def)

lemma same_resolved_frame: "same_resolved s s' \<Longrightarrow> frame s s'"
  by (simp add: same_resolved_def frame_def)

subsection \<open>What each loop body leaves unchanged\<close>

lemma set_Directory_frame:
  "set_Directory fn k s = (s', out) \<Longrightarrow> frame s s' \<and> heap s' = heap s"
  by (auto simp: set_Directory_def frame_def split: option.splits if_splits)

lemma set_Extension_frame:
  "set_Extension k s = (s', out) \<Longrightarrow>
     frame s s' \<and> heap s' = heap s \<and>
     PublicDirectory (Config s') = PublicDirectory (Config s) \<and>
     PrivateDirectory (Config s') = PrivateDirectory (Config s)"
  by (auto simp: set_Extension_def frame_def split: option.splits if_splits)

lemma setup_Certificate_frame:
  "setup_Certificate k s = (s', out) \<Longrightarrow> frame s s' \<and> Config s' = Config s"
  by (auto simp: setup_Certificate_def setup_Cert_def frame_def
      split: option.splits ref.splits sum.splits)

lemma link_Certificate_same:
  "link_Certificate k s = (s', out) \<Longrightarrow> same_resolved s s'"
  by (auto simp: link_Certificate_def same_resolved_def Let_def
      split: option.splits ref.splits if_splits)

lemma setup_Certificate_resolved:
  "resolved s p \<Longrightarrow> setup_Certificate k s = (s', out) \<Longrightarrow> resolved s' p"
  by (auto simp: setup_Certificate_def setup_Cert_def resolved_def
      split: option.splits ref.splits sum.splits)

lemma same_resolved_resolved:
  "same_resolved s s' \<Longrightarrow> resolved s p \<Longrightarrow> resolved s' p"
  by (simp add: same_resolved_def resolved_def)

lemma setup_Certificate_Success:
  "setup_Certificate k s = (s', Success) \<Longrightarrow> Certificates (Config s) k = Some r \<Longrightarrow>
     \<exists>p. r = Addr p \<and> resolved s' p"
  by (auto simp: setup_Certificate_def setup_Cert_def resolved_def
      split: option.splits ref.splits sum.splits)

lemma link_Certificate_Success:
  "link_Certificate k s = (s', Success) \<Longrightarrow> Certificates (Config s) k = Some r \<Longrightarrow>
     \<exists>p. r = Addr p \<and> link_ok s' p"
  by (auto simp: link_Certificate_def link_ok_def Let_def
      split: option.splits ref.splits if_splits)

lemma link_Certificate_link_ok:
  "link_ok s p \<Longrightarrow> link_Certificate k s = (s', out) \<Longrightarrow> link_ok s' p"
  by (auto simp: link_Certificate_def link_ok_def Let_def
      split: option.splits ref.splits if_splits)

subsection \<open>What each loop leaves unchanged\<close>

lemma range_Directories_frame:
  assumes "for_range (set_Directory fn) ks s = (s', out)"
  shows "frame s s' \<and> heap s' = heap s"
proof (rule for_range_preserves [where P = "\<lambda>x. frame s x \<and> heap x = heap s", OF _ _ assms])
  show "frame s s \<and> heap s = heap s" by (simp add: frame_refl)
next
  fix k x x' out'
  assume "frame s x \<and> heap x = heap s" and "set_Directory fn k x = (x', out')"
  then show "frame s x' \<and> heap x' = heap s"
    using set_Directory_frame frame_trans by metis
qed

lemma range_Extensions_frame:
  assumes "for_range set_Extension ks s = (s', out)"
  shows "frame s s' \<and> heap s' = heap s \<and>
         PublicDirectory (Config s') = PublicDirectory (Config s) \<and>
         PrivateDirectory (Config s') = PrivateDirectory (Config s)"
proof (rule for_range_preserves
    [where P = "\<lambda>x. frame s x \<and> heap x = heap s \<and>
                  PublicDirectory (Config x) = PublicDirectory (Config s) \<and>
                  PrivateDirectory (Config x) = PrivateDirectory (Config s)", OF _ _ assms])
  show "frame s s \<and> heap s = heap s \<and>
        PublicDirectory (Config s) = PublicDirectory (Config s) \<and>
        PrivateDirectory (Config s) = PrivateDirectory (Config s)"
    by (simp add: frame_refl)
next
  fix k x x' out'
  assume "frame s x \<and> heap x = heap s \<and>
          PublicDirectory (Config x) = PublicDirectory (Config s) \<and>
          PrivateDirectory (Config x) = PrivateDirectory (Config s)"
    and "set_Extension k x = (x', out')"
  then show "frame s x' \<and> heap x' = heap s \<and>
          PublicDirectory (Config x') = PublicDirectory (Config s) \<and>
          PrivateDirectory (Config x') = PrivateDirectory (Config s)"
    using set_Extension_frame frame_trans by metis
qed

lemma range_Certificates1_frame:
  assumes "for_range setup_Certificate ks s = (s', out)"
  shows "frame s s' \<and> Config s' = Config s"
proof (rule for_range_preserves [where P = "\<lambda>x. frame s x \<and> Config x = Config s", OF _ _ assms])
  show "frame s s \<and> Config s = Config s" by (simp add: frame_refl)
next
  fix k x x' out'
  assume "frame s x \<and> Config x = Config s" and "setup_Certificate k x = (x', out')"
  then show "frame s x' \<and> Config x' = Config s"
    using setup_Certificate_frame frame_trans by metis
qed

lemma range_Certificates2_same:
  assumes "for_range link_Certificate ks s = (s', out)"
  shows "same_resolved s s'"
proof (rule for_range_preserves [where P = "same_resolved s", OF _ _ assms])
  show "same_resolved s s" by (rule same_resolved_refl)
next
  fix k x x' out'
  assume "same_resolved s x" and "link_Certificate k x = (x', out')"
  then show "same_resolved s x'"
    using link_Certificate_same same_resolved_trans by blast
qed

subsection \<open>What the two certificate loops establish when they complete\<close>

lemma range_Certificates1_Success:
  assumes run: "for_range setup_Certificate ks s = (s', Success)"
    and "k \<in> set ks" and "Certificates (Config s) k = Some r"
  shows "\<exists>p. r = Addr p \<and> resolved s' p"
proof -
  let ?Q = "\<lambda>k x. \<forall>r. Certificates (Config x) k = Some r \<longrightarrow> (\<exists>p. r = Addr p \<and> resolved x p)"
  have "\<forall>k\<in>set ks. ?Q k s'"
  proof (rule for_range_Success_all [where Q = ?Q and body = setup_Certificate, OF _ _ run])
    fix k x x'
    assume "setup_Certificate k x = (x', Success)"
    then show "?Q k x'"
      using setup_Certificate_frame setup_Certificate_Success by metis
  next
    fix k k' x x' out'
    assume "?Q k x" and "setup_Certificate k' x = (x', out')"
    then show "?Q k x'"
      using setup_Certificate_frame setup_Certificate_resolved by metis
  qed
  moreover have "Config s' = Config s"
    using range_Certificates1_frame [OF run] by simp
  ultimately show ?thesis using assms(2,3) by simp
qed

lemma range_Certificates2_Success:
  assumes run: "for_range link_Certificate ks s = (s', Success)"
    and "k \<in> set ks" and "Certificates (Config s) k = Some r"
  shows "\<exists>p. r = Addr p \<and> link_ok s' p"
proof -
  let ?Q = "\<lambda>k x. \<forall>r. Certificates (Config x) k = Some r \<longrightarrow> (\<exists>p. r = Addr p \<and> link_ok x p)"
  have same: "Config x' = Config x" if "link_Certificate k x = (x', out')" for k x x' out'
    using link_Certificate_same [OF that] by (simp add: same_resolved_def)
  have "\<forall>k\<in>set ks. ?Q k s'"
  proof (rule for_range_Success_all [where Q = ?Q and body = link_Certificate, OF _ _ run])
    fix k x x'
    assume "link_Certificate k x = (x', Success)"
    then show "?Q k x'"
      using same link_Certificate_Success by metis
  next
    fix k k' x x' out'
    assume "?Q k x" and "link_Certificate k' x = (x', out')"
    then show "?Q k x'"
      using same link_Certificate_link_ok by metis
  qed
  moreover have "Config s' = Config s"
    using range_Certificates2_same [OF run] by (simp add: same_resolved_def)
  ultimately show ?thesis using assms(2,3) by simp
qed

subsection \<open>The run of a call that parsed its file\<close>

lemma GetConfig_parsed:
  assumes "ReadFile e (Clean e fn) = Inr configFile"
    and "Unmarshal e configFile s0 = (d, None)"
  shows "GetConfig e (Some fn) s0 =
    seq (for_range (set_Directory fn) (range_Directories e)
           (d\<lparr>Config := (Config d)
                 \<lparr>PublicDirectory := defaultPublicDirectory,
                  PrivateDirectory := defaultPrivateDirectory\<rparr>\<rparr>))
      (\<lambda>s2.
    seq (for_range set_Extension (range_Extensions e)
           (s2\<lparr>Config := (Config s2)
                 \<lparr>ExtensionKey := defaultExtensionKey,
                  ExtensionCert := defaultExtensionCert\<rparr>\<rparr>))
      (\<lambda>s3.
    seq (for_range setup_Certificate (range_Certificates1 e) s3)
      (\<lambda>s4.
    for_range link_Certificate (range_Certificates2 e) s4)))"
  using assms by (simp add: GetConfig_def)

lemma GetConfig_Success_runs:
  assumes "ReadFile e (Clean e fn) = Inr configFile"
    and "Unmarshal e configFile s0 = (d, None)"
    and "GetConfig e (Some fn) s0 = (s', Success)"
  obtains s2 s3 s4 where
    "for_range (set_Directory fn) (range_Directories e)
       (d\<lparr>Config := (Config d)
             \<lparr>PublicDirectory := defaultPublicDirectory,
              PrivateDirectory := defaultPrivateDirectory\<rparr>\<rparr>) = (s2, Success)"
    "for_range set_Extension (range_Extensions e)
       (s2\<lparr>Config := (Config s2)
             \<lparr>ExtensionKey := defaultExtensionKey,
              ExtensionCert := defaultExtensionCert\<rparr>\<rparr>) = (s3, Success)"
    "for_range setup_Certificate (range_Certificates1 e) s3 = (s4, Success)"
    "for_range link_Certificate (range_Certificates2 e) s4 = (s', Success)"
  using assms(3) unfolding GetConfig_parsed [OF assms(1,2)] seq_Success_iff by blast

lemma frame_init_Directories:
  "frame d (d\<lparr>Config := (Config d)\<lparr>PublicDirectory := a, PrivateDirectory := b\<rparr>\<rparr>)"
  by (simp add: frame_def)

lemma frame_init_Extensions:
  "frame d (d\<lparr>Config := (Config d)\<lparr>ExtensionKey := a, ExtensionCert := b\<rparr>\<rparr>)"
  by (simp add: frame_def)

lemma GetConfig_Success_facts:
  assumes read: "ReadFile e (Clean e fn) = Inr configFile"
    and parse: "Unmarshal e configFile s0 = (d, None)"
    and run: "GetConfig e (Some fn) s0 = (s', Success)"
  shows "frame d s'"
    and "k \<in> set (range_Certificates1 e) \<Longrightarrow> Certificates (Config d) k = Some r \<Longrightarrow>
           \<exists>p. r = Addr p \<and> resolved s' p"
    and "k \<in> set (range_Certificates2 e) \<Longrightarrow> Certificates (Config d) k = Some r \<Longrightarrow>
           \<exists>p. r = Addr p \<and> link_ok s' p"
proof -
  from GetConfig_Success_runs [OF read parse run] obtain s2 s3 s4 where
    r1: "for_range (set_Directory fn) (range_Directories e)
       (d\<lparr>Config := (Config d)
             \<lparr>PublicDirectory := defaultPublicDirectory,
              PrivateDirectory := defaultPrivateDirectory\<rparr>\<rparr>) = (s2, Success)"
    and r2: "for_range set_Extension (range_Extensions e)
       (s2\<lparr>Config := (Config s2)
             \<lparr>ExtensionKey := defaultExtensionKey,
              ExtensionCert := defaultExtensionCert\<rparr>\<rparr>) = (s3, Success)"
    and r3: "for_range setup_Certificate (range_Certificates1 e) s3 = (s4, Success)"
    and r4: "for_range link_Certificate (range_Certificates2 e) s4 = (s', Success)"
    by blast
  have f2: "frame d s2"
    using range_Directories_frame [OF r1] frame_init_Directories frame_trans by blast
  have f3: "frame d s3"
    using range_Extensions_frame [OF r2] frame_init_Extensions f2 frame_trans by blast
  have f4: "frame d s4"
    using range_Certificates1_frame [OF r3] f3 frame_trans by blast
  have sr: "same_resolved s4 s'"
    using range_Certificates2_same [OF r4] .
  show f5: "frame d s'"
    using f4 same_resolved_frame [OF sr] frame_trans by blast
  have c3: "Certificates (Config s3) = Certificates (Config d)"
    using f3 by (simp add: frame_def)
  have c4: "Certificates (Config s4) = Certificates (Config d)"
    using f4 by (simp add: frame_def)
  show "\<exists>p. r = Addr p \<and> resolved s' p"
    if "k \<in> set (range_Certificates1 e)" "Certificates (Config d) k = Some r"
    using range_Certificates1_Success [OF r3 that(1)] that(2) c3
      same_resolved_resolved [OF sr] by auto
  show "\<exists>p. r = Addr p \<and> link_ok s' p"
    if "k \<in> set (range_Certificates2 e)" "Certificates (Config d) k = Some r"
    using range_Certificates2_Success [OF r4 that(1)] that(2) c4 by auto
qed

section \<open>Documents that reach the linking check\<close>

lemma for_range_total:
  assumes step: "\<And>k s. k \<in> K \<Longrightarrow> P s \<Longrightarrow> \<exists>s'. body k s = (s', Success) \<and> P s'"
    and "P s" and "set ks \<subseteq> K"
  shows "\<exists>s'. for_range body ks s = (s', Success) \<and> P s'"
  using assms(2,3)
proof (induction ks arbitrary: s)
  case Nil
  then show ?case by simp
next
  case (Cons k ks)
  from step [of k s] Cons.prems obtain s1 where "body k s = (s1, Success)" "P s1"
    by auto
  with Cons.IH [of s1] Cons.prems(2) show ?case by simp
qed

lemma frame_recognised: "frame s s' \<Longrightarrow> recognised s' k = recognised s k"
  by (auto simp: frame_def recognised_def split: option.splits ref.splits)

lemma setup_Certificate_total:
  "recognised s k \<Longrightarrow> \<exists>s'. setup_Certificate k s = (s', Success)"
  by (auto simp: recognised_def setup_Certificate_def setup_Cert_def
      split: option.splits ref.splits sum.splits)

lemma range_Certificates1_total:
  assumes "\<forall>k\<in>set ks. recognised s k"
  shows "\<exists>s'. for_range setup_Certificate ks s = (s', Success)"
proof -
  have "\<exists>s'. for_range setup_Certificate ks s = (s', Success) \<and> frame s s'"
  proof (rule for_range_total [where K = "set ks" and P = "frame s"])
    fix k x
    assume k: "k \<in> set ks" and x: "frame s x"
    then have "recognised x k" using assms frame_recognised by blast
    then obtain x' where x': "setup_Certificate k x = (x', Success)"
      using setup_Certificate_total by blast
    then have "frame s x'" using setup_Certificate_frame x frame_trans by blast
    with x' show "\<exists>s'. setup_Certificate k x = (s', Success) \<and> frame s s'" by blast
  qed (simp_all add: frame_refl)
  then show ?thesis by blast
qed

lemma range_Directories_total:
  assumes "dom (Directories (Config s)) \<subseteq> {''public'', ''private''}"
  shows "\<exists>s'. for_range (set_Directory fn) ks s = (s', Success)"
proof -
  let ?P = "\<lambda>x::state. dom (Directories (Config x)) \<subseteq> {''public'', ''private''}"
  have "\<exists>s'. for_range (set_Directory fn) ks s = (s', Success) \<and> ?P s'"
  proof (rule for_range_total [where K = UNIV and P = ?P])
    fix k x
    assume "?P x"
    then show "\<exists>s'. set_Directory fn k x = (s', Success) \<and> ?P s'"
      by (cases "Directories (Config x) k") (auto simp: set_Directory_def)
  qed (use assms in simp_all)
  then show ?thesis by blast
qed

lemma range_Extensions_total:
  assumes "dom (Extensions (Config s)) \<subseteq> {''key'', ''certificate''}"
  shows "\<exists>s'. for_range set_Extension ks s = (s', Success)"
proof -
  let ?P = "\<lambda>x::state. dom (Extensions (Config x)) \<subseteq> {''key'', ''certificate''}"
  have "\<exists>s'. for_range set_Extension ks s = (s', Success) \<and> ?P s'"
  proof (rule for_range_total [where K = UNIV and P = ?P])
    fix k x
    assume "?P x"
    then show "\<exists>s'. set_Extension k x = (s', Success) \<and> ?P s'"
      by (cases "Extensions (Config x) k") (auto simp: set_Extension_def)
  qed (use assms in simp_all)
  then show ?thesis by blast
qed

lemma all_resolved_same: "all_resolved d s \<Longrightarrow> same_resolved s s' \<Longrightarrow> all_resolved d s'"
  unfolding all_resolved_def
  using same_resolved_frame frame_trans same_resolved_resolved by blast

lemma all_resolved_fields:
  assumes "all_resolved d s" and "Certificates (Config d) k = Some r"
  shows "\<exists>p. r = Addr p \<and>
    getCertType (TypeString (heap d p)) =
      Inr \<lparr>ctype = Type (heap s p), isCA = IsCA (heap s p),
           isSelfSigned = IsSelfSigned (heap s p)\<rparr> \<and>
    Issuer (heap s p) = Issuer (heap d p)"
  using assms by (fastforce simp: all_resolved_def frame_def resolved_def)

lemma all_resolved_Certificates:
  "all_resolved d s \<Longrightarrow> Certificates (Config s) = Certificates (Config d)"
  by (simp add: all_resolved_def frame_def)

lemma passes_link_Success:
  assumes ar: "all_resolved d s" and ok: "passes_link d k"
  shows "\<exists>s'. link_Certificate k s = (s', Success)"
proof (cases "Certificates (Config d) k")
  case None
  then show ?thesis
    using all_resolved_Certificates [OF ar] by (simp add: link_Certificate_def)
next
  case (Some r)
  from all_resolved_fields [OF ar Some] obtain p where p: "r = Addr p"
    and tp: "getCertType (TypeString (heap d p)) =
      Inr \<lparr>ctype = Type (heap s p), isCA = IsCA (heap s p),
           isSelfSigned = IsSelfSigned (heap s p)\<rparr>"
    and ip: "Issuer (heap s p) = Issuer (heap d p)" by blast
  show ?thesis
  proof (cases "IsSelfSigned (heap s p)")
    case True
    with ok Some p tp ip show ?thesis
      using all_resolved_Certificates [OF ar]
      by (simp add: passes_link_def link_Certificate_def)
  next
    case False
    with ok Some p tp obtain q where
      q: "Certificates (Config d) (Issuer (heap d p)) = Some (Addr q)"
      and tq: "case getCertType (TypeString (heap d q)) of Inl err \<Rightarrow> False
               | Inr issuerType \<Rightarrow> isCA issuerType"
      by (auto simp: passes_link_def split: option.splits ref.splits)
    from all_resolved_fields [OF ar q] tq have "IsCA (heap s q)" by auto
    with False Some p q ip show ?thesis
      using all_resolved_Certificates [OF ar]
      by (auto simp: link_Certificate_def Let_def)
  qed
qed

lemma range_Certificates2_prefix:
  assumes "all_resolved d s" and "\<forall>k\<in>set ks. passes_link d k"
  shows "\<exists>s'. for_range link_Certificate ks s = (s', Success) \<and> all_resolved d s'"
proof (rule for_range_total [where K = "set ks" and P = "all_resolved d"])
  fix k x
  assume "k \<in> set ks" and x: "all_resolved d x"
  with assms(2) obtain x' where x': "link_Certificate k x = (x', Success)"
    using passes_link_Success by blast
  with x show "\<exists>s'. link_Certificate k x = (s', Success) \<and> all_resolved d s'"
    using all_resolved_same link_Certificate_same by blast
qed (use assms in simp_all)

lemma split_at_key:
  "k \<in> set ks \<Longrightarrow>
     ks = takeWhile (\<lambda>x. x \<noteq> k) ks @ k # tl (dropWhile (\<lambda>x. x \<noteq> k) ks)"
  by (induction ks) auto

lemma for_range_Cons_seq:
  "for_range body (k # ks) s = seq (body k s) (for_range body ks)"
  by (simp add: seq_def split: prod.splits outcome.splits)

lemma GetConfig_reaches_link:
  assumes read: "ReadFile e (Clean e fn) = Inr configFile"
    and parse: "Unmarshal e configFile s0 = (d, None)"
    and dirs: "dom (Directories (Config d)) \<subseteq> {''public'', ''private''}"
    and exts: "dom (Extensions (Config d)) \<subseteq> {''key'', ''certificate''}"
    and types: "\<forall>k\<in>set (range_Certificates1 e). recognised d k"
    and cover: "dom (Certificates (Config d)) \<subseteq> set (range_Certificates1 e)"
    and mem: "certName \<in> set (range_Certificates2 e)"
    and pre: "\<forall>k\<in>set (takeWhile (\<lambda>k. k \<noteq> certName) (range_Certificates2 e)).
                passes_link d k"
  shows "\<exists>s. all_resolved d s \<and>
    GetConfig e (Some fn) s0 =
      seq (link_Certificate certName s)
        (for_range link_Certificate
           (tl (dropWhile (\<lambda>k. k \<noteq> certName) (range_Certificates2 e))))"
proof -
  let ?s1 = "d\<lparr>Config := (Config d)
                 \<lparr>PublicDirectory := defaultPublicDirectory,
                  PrivateDirectory := defaultPrivateDirectory\<rparr>\<rparr>"
  have "dom (Directories (Config ?s1)) \<subseteq> {''public'', ''private''}"
    using dirs by simp
  from range_Directories_total [OF this] obtain s2 where
    r1: "for_range (set_Directory fn) (range_Directories e) ?s1 = (s2, Success)" by blast
  have f2: "frame d s2"
    using range_Directories_frame [OF r1] frame_init_Directories frame_trans by blast
  let ?s2 = "s2\<lparr>Config := (Config s2)
                 \<lparr>ExtensionKey := defaultExtensionKey,
                  ExtensionCert := defaultExtensionCert\<rparr>\<rparr>"
  have "dom (Extensions (Config ?s2)) \<subseteq> {''key'', ''certificate''}"
    using exts f2 by (simp add: frame_def)
  from range_Extensions_total [OF this] obtain s3 where
    r2: "for_range set_Extension (range_Extensions e) ?s2 = (s3, Success)" by blast
  have f3: "frame d s3"
    using range_Extensions_frame [OF r2] frame_init_Extensions f2 frame_trans by blast
  have "\<forall>k\<in>set (range_Certificates1 e). recognised s3 k"
    using types frame_recognised [OF f3] by simp
  from range_Certificates1_total [OF this] obtain s4 where
    r3: "for_range setup_Certificate (range_Certificates1 e) s3 = (s4, Success)" by blast
  have f4: "frame d s4"
    using range_Certificates1_frame [OF r3] f3 frame_trans by blast
  have c3: "Certificates (Config s3) = Certificates (Config d)"
    using f3 by (simp add: frame_def)
  have a4: "all_resolved d s4"
    unfolding all_resolved_def
  proof (intro conjI allI impI)
    fix k r
    assume kr: "Certificates (Config d) k = Some r"
    then have "k \<in> set (range_Certificates1 e)" using cover by auto
    from range_Certificates1_Success [OF r3 this] kr c3
    show "\<exists>p. r = Addr p \<and> resolved s4 p" by simp
  qed (rule f4)
  let ?pre = "takeWhile (\<lambda>k. k \<noteq> certName) (range_Certificates2 e)"
  let ?post = "tl (dropWhile (\<lambda>k. k \<noteq> certName) (range_Certificates2 e))"
  from range_Certificates2_prefix [OF a4 pre] obtain s5 where
    r4: "for_range link_Certificate ?pre s4 = (s5, Success)" and a5: "all_resolved d s5"
    by blast
  have "for_range link_Certificate (range_Certificates2 e) s4 =
        for_range link_Certificate (?pre @ certName # ?post) s4"
    using split_at_key [OF mem] by simp
  also have "\<dots> = seq (link_Certificate certName s5) (for_range link_Certificate ?post)"
    unfolding for_range_append r4 seq_simps for_range_Cons_seq ..
  finally have "GetConfig e (Some fn) s0 =
      seq (link_Certificate certName s5) (for_range link_Certificate ?post)"
    unfolding GetConfig_parsed [OF read parse] r1 seq_simps r2 r3 .
  with a5 show ?thesis by blast
qed

lemma GetConfig_Success_passes:
  assumes read: "ReadFile e (Clean e fn) = Inr configFile"
    and parse: "Unmarshal e configFile s0 = (d, None)"
    and cover1: "dom (Certificates (Config d)) \<subseteq> set (range_Certificates1 e)"
    and cover2: "dom (Certificates (Config d)) \<subseteq> set (range_Certificates2 e)"
    and run: "GetConfig e (Some fn) s0 = (s', Success)"
  shows "passes_link d k"
proof (cases "Certificates (Config d) k")
  case None
  then show ?thesis by (simp add: passes_link_def)
next
  case (Some r)
  note facts = GetConfig_Success_facts [OF read parse run]
  have ar: "all_resolved d s'"
    unfolding all_resolved_def using facts(1,2) cover1 by blast
  from Some cover2 have "k \<in> set (range_Certificates2 e)" by auto
  from facts(3) [OF this Some] obtain p where p: "r = Addr p" and lk: "link_ok s' p"
    by blast
  from all_resolved_fields [OF ar Some] p have
    tp: "getCertType (TypeString (heap d p)) =
      Inr \<lparr>ctype = Type (heap s' p), isCA = IsCA (heap s' p),
           isSelfSigned = IsSelfSigned (heap s' p)\<rparr>"
    and ip: "Issuer (heap s' p) = Issuer (heap d p)" by auto
  have cs: "Certificates (Config s') = Certificates (Config d)"
    using all_resolved_Certificates [OF ar] .
  show ?thesis
  proof (cases "IsSelfSigned (heap s' p)")
    case True
    with lk ip Some p tp show ?thesis
      by (simp add: link_ok_def passes_link_def)
  next
    case False
    with lk ip cs obtain q where
      q: "Certificates (Config d) (Issuer (heap d p)) = Some (Addr q)"
      and ca: "IsCA (heap s' q)"
      by (auto simp: link_ok_def split: option.splits ref.splits)
    from all_resolved_fields [OF ar q] ca have
      "getCertType (TypeString (heap d q)) =
         Inr \<lparr>ctype = Type (heap s' q), isCA = True,
              isSelfSigned = IsSelfSigned (heap s' q)\<rparr>" by auto
    with False Some p tp q show ?thesis
      by (simp add: passes_link_def)
  qed
qed

lemma GetConfig_not_Success:
  assumes read: "ReadFile e (Clean e fn) = Inr configFile"
    and parse: "Unmarshal e configFile s0 = (d, None)"
    and order1: "range_of (range_Certificates1 e) (Certificates (Config d))"
    and order2: "range_of (range_Certificates2 e) (Certificates (Config d))"
    and bad: "\<not> passes_link d k"
  shows "snd (GetConfig e (Some fn) s0) \<noteq> Success"
proof
  assume "snd (GetConfig e (Some fn) s0) = Success"
  then have "GetConfig e (Some fn) s0 = (fst (GetConfig e (Some fn) s0), Success)"
    by (metis prod.collapse)
  from GetConfig_Success_passes [OF read parse _ _ this] order1 order2 bad
  show False by (simp add: range_of_def)
qed

section \<open>Running the examples\<close>

lemmas run_defs =
  GetConfig_def parsing_env_def seq_def set_Directory_def set_Extension_def
  setup_Certificate_def setup_Cert_def link_Certificate_def getCertType_def theMap_def
  fill_Subject_def zero_state_def zero_Type_def zero_Cert_def Let_def

lemma snd_seq_Failure: "snd r = Failure err \<Longrightarrow> snd (seq r f) = Failure err"
  by (cases r) (simp add: seq_def)
section \<open>Classification\<close>

lemma theMap_None:
  "typeString \<notin> {''rootCA'', ''intermediateCA'', ''OCSPSigning'', ''server'', ''client''}
   \<Longrightarrow> theMap typeString = None"
  by (simp add: theMap_def)

text \<open>The five rows of the table, and the failure on every other tag.\<close>

lemma getCertType_rows:
  "getCertType ''rootCA'' = Inr \<lparr>ctype = RootCACert, isCA = True, isSelfSigned = True\<rparr>"
  "getCertType ''intermediateCA'' =
     Inr \<lparr>ctype = IntermediateCACert, isCA = True, isSelfSigned = False\<rparr>"
  "getCertType ''OCSPSigning'' =
     Inr \<lparr>ctype = OCSPSigningCert, isCA = False, isSelfSigned = False\<rparr>"
  "getCertType ''server'' = Inr \<lparr>ctype = ServerCert, isCA = False, isSelfSigned = False\<rparr>"
  "getCertType ''client'' = Inr \<lparr>ctype = ClientCert, isCA = False, isSelfSigned = False\<rparr>"
  by (simp_all add: getCertType_def theMap_def)

lemma getCertType_unknown:
  "typeString \<notin> {''rootCA'', ''intermediateCA'', ''OCSPSigning'', ''server'', ''client''}
   \<Longrightarrow> getCertType typeString = Inl (InvalidCertificateType typeString)"
  using theMap_None [of typeString] by (simp add: getCertType_def)

lemma setup_Certificate_unknown:
  assumes "Certificates (Config s) certName = Some (Addr p)"
    and "TypeString (heap s p) \<notin>
           {''rootCA'', ''intermediateCA'', ''OCSPSigning'', ''server'', ''client''}"
  shows "setup_Certificate certName s =
           (s, Failure (InvalidType certName (TypeString (heap s p))))"
  using assms(1) getCertType_unknown [OF assms(2)]
  by (simp add: setup_Certificate_def setup_Cert_def)

text \<open>
  Claim C2. Classification returns the tuple of the table for each of the five tags,
  and fails for every other tag with an invalid-certificate-type error that names
  the offending certificate and the offending tag. The table and the failure hold
  (\<open>getCertType_rows\<close>, \<open>getCertType_unknown\<close>). The naming does not: the error of
  \<open>getCertType\<close> names the tag alone and \<open>GetConfig\<close> drops it, and the error that
  \<open>GetConfig\<close> makes in its place (line 147) passes the certificate's name where
  the format string reads the type, and the type string where it reads the
  certificate. On a document whose only certificate, \<open>signer\<close>, has the unknown type
  \<open>OCSP\<close>, the call returns the message \<open>invalid type signer for certificate OCSP\<close>,
  where the claim asks for \<open>invalid type OCSP for certificate signer\<close>.
\<close>

theorem GetConfig_invalid_type_message:
  "Certificates (Config mistyped_doc) ''signer'' = Some (Addr 0) \<and>
   TypeString (heap mistyped_doc 0) = ''OCSP'' \<and>
   getCertType ''OCSP'' = Inl (InvalidCertificateType ''OCSP'') \<and>
   Error (InvalidCertificateType ''OCSP'') =
     ''invalid certificate type '' @ [CHR 0x27] @ ''OCSP'' @ [CHR 0x27] \<and>
   snd (GetConfig (parsing_env mistyped_doc [] [] [''signer''] [''signer''])
          (Some ''certs.yaml'') zero_state) = Failure (InvalidType ''signer'' ''OCSP'') \<and>
   Error (InvalidType ''signer'' ''OCSP'') = ''invalid type signer for certificate OCSP'' \<and>
   Error (InvalidType ''signer'' ''OCSP'') \<noteq> ''invalid type OCSP for certificate signer''"
proof -
  have doc: "Certificates (Config mistyped_doc) ''signer'' = Some (Addr 0)"
    "TypeString (heap mistyped_doc 0) = ''OCSP''"
    by (simp_all add: mistyped_doc_def zero_Type_def zero_Cert_def)
  have own: "getCertType ''OCSP'' = Inl (InvalidCertificateType ''OCSP'')"
    by (simp add: getCertType_def theMap_def)
  have run: "snd (GetConfig (parsing_env mistyped_doc [] [] [''signer''] [''signer''])
          (Some ''certs.yaml'') zero_state) = Failure (InvalidType ''signer'' ''OCSP'')"
    by (simp add: run_defs mistyped_doc_def)
  have msg: "Error (InvalidType ''signer'' ''OCSP'') = ''invalid type signer for certificate OCSP''"
    "Error (InvalidCertificateType ''OCSP'') =
       ''invalid certificate type '' @ [CHR 0x27] @ ''OCSP'' @ [CHR 0x27]"
    by simp_all
  have "Error (InvalidType ''signer'' ''OCSP'') \<noteq> ''invalid type OCSP for certificate signer''"
    by simp
  with doc own run msg show ?thesis by simp
qed

section \<open>Subject defaulting\<close>

text \<open>
  Claim C8. The subject of a certificate is filled field by field: each of O, OU and CN
  of the result is the field of \<open>Config.Subject\<close> when the certificate's own field is
  the empty string, and the certificate's own field otherwise, whatever the other two
  fields are. The subject \<open>{O: "", OU: "X", CN: ""}\<close> against the default
  \<open>{O: "Acme", OU: "Y", CN: "foo.com"}\<close> gives \<open>{O: "Acme", OU: "X", CN: "foo.com"}\<close>.
  The step has no error: on a certificate whose type is recognised the loop body
  returns the certificate with the filled subject.
\<close>

theorem fill_Subject_fieldwise:
  "O' (fill_Subject subject dflt) = (if O' subject = [] then O' dflt else O' subject) \<and>
   OU (fill_Subject subject dflt) = (if OU subject = [] then OU dflt else OU subject) \<and>
   CN (fill_Subject subject dflt) = (if CN subject = [] then CN dflt else CN subject) \<and>
   fill_Subject \<lparr>O' = [], OU = ''X'', CN = []\<rparr> \<lparr>O' = ''Acme'', OU = ''Y'', CN = ''foo.com''\<rparr> =
     \<lparr>O' = ''Acme'', OU = ''X'', CN = ''foo.com''\<rparr> \<and>
   (getCertType (TypeString cert) = Inr certType \<longrightarrow>
      (\<exists>cert'. setup_Cert cfg certName cert = Inr cert' \<and>
         Cert.Subject cert' = fill_Subject (Cert.Subject cert) (Type.Subject cfg)))"
  by (simp add: fill_Subject_def setup_Cert_def Let_def)

theorem fill_Subject_fieldwise_witness:
  "getCertType (TypeString (zero_Cert\<lparr>TypeString := ''server''\<rparr>)) =
     Inr \<lparr>ctype = ServerCert, isCA = False, isSelfSigned = False\<rparr> \<and>
   (\<exists>cert'. setup_Cert zero_Type ''web'' (zero_Cert\<lparr>TypeString := ''server''\<rparr>) = Inr cert' \<and>
      Cert.Subject cert' =
        fill_Subject (Cert.Subject (zero_Cert\<lparr>TypeString := ''server''\<rparr>)) (Type.Subject zero_Type))"
  using fill_Subject_fieldwise
    [of "\<lparr>O' = [], OU = [], CN = []\<rparr>" "\<lparr>O' = [], OU = [], CN = []\<rparr>"
        "zero_Cert\<lparr>TypeString := ''server''\<rparr>"
        "\<lparr>ctype = ServerCert, isCA = False, isSelfSigned = False\<rparr>" zero_Type "''web''"]
  by (simp add: getCertType_def theMap_def)

section \<open>Issuer links\<close>

text \<open>
  Claim C3. There is a document on which resolution succeeds although its issuer
  references form a cycle: \<open>cycle_doc\<close> holds only the two intermediate CA certificates
  \<open>A\<close> and \<open>B\<close>, with \<open>A\<close> issued by \<open>B\<close> and \<open>B\<close> by \<open>A\<close>, and no root.
  \<open>GetConfig\<close> returns \<open>nil\<close> on it in each of the four ways the two loops over the
  certificates can be ordered, and leaves each certificate pointing to the other.
\<close>

theorem GetConfig_accepts_cycle:
  "dom (Certificates (Config cycle_doc)) = {''A'', ''B''} \<and>
   Certificates (Config cycle_doc) ''A'' = Some (Addr 0) \<and>
   Certificates (Config cycle_doc) ''B'' = Some (Addr 1) \<and>
   TypeString (heap cycle_doc 0) = ''intermediateCA'' \<and> Issuer (heap cycle_doc 0) = ''B'' \<and>
   TypeString (heap cycle_doc 1) = ''intermediateCA'' \<and> Issuer (heap cycle_doc 1) = ''A'' \<and>
   snd (GetConfig (parsing_env cycle_doc [] [] [''A'', ''B''] [''A'', ''B''])
          (Some ''certs.yaml'') zero_state) = Success \<and>
   snd (GetConfig (parsing_env cycle_doc [] [] [''A'', ''B''] [''B'', ''A''])
          (Some ''certs.yaml'') zero_state) = Success \<and>
   snd (GetConfig (parsing_env cycle_doc [] [] [''B'', ''A''] [''A'', ''B''])
          (Some ''certs.yaml'') zero_state) = Success \<and>
   snd (GetConfig (parsing_env cycle_doc [] [] [''B'', ''A''] [''B'', ''A''])
          (Some ''certs.yaml'') zero_state) = Success \<and>
   IssuerCert (heap (fst (GetConfig (parsing_env cycle_doc [] [] [''A'', ''B''] [''A'', ''B''])
          (Some ''certs.yaml'') zero_state)) 0) = Addr 1 \<and>
   IssuerCert (heap (fst (GetConfig (parsing_env cycle_doc [] [] [''A'', ''B''] [''A'', ''B''])
          (Some ''certs.yaml'') zero_state)) 1) = Addr 0"
proof -
  have doc: "dom (Certificates (Config cycle_doc)) = {''A'', ''B''}"
    by (auto simp: cycle_doc_def zero_Type_def)
  have runs:
    "snd (GetConfig (parsing_env cycle_doc [] [] [''A'', ''B''] [''A'', ''B''])
          (Some ''certs.yaml'') zero_state) = Success"
    "snd (GetConfig (parsing_env cycle_doc [] [] [''A'', ''B''] [''B'', ''A''])
          (Some ''certs.yaml'') zero_state) = Success"
    "snd (GetConfig (parsing_env cycle_doc [] [] [''B'', ''A''] [''A'', ''B''])
          (Some ''certs.yaml'') zero_state) = Success"
    "snd (GetConfig (parsing_env cycle_doc [] [] [''B'', ''A''] [''B'', ''A''])
          (Some ''certs.yaml'') zero_state) = Success"
    by (simp_all add: run_defs cycle_doc_def)
  have links:
    "IssuerCert (heap (fst (GetConfig (parsing_env cycle_doc [] [] [''A'', ''B''] [''A'', ''B''])
          (Some ''certs.yaml'') zero_state)) 0) = Addr 1"
    "IssuerCert (heap (fst (GetConfig (parsing_env cycle_doc [] [] [''A'', ''B''] [''A'', ''B''])
          (Some ''certs.yaml'') zero_state)) 1) = Addr 0"
    by (simp_all add: run_defs cycle_doc_def)
  have fields:
    "Certificates (Config cycle_doc) ''A'' = Some (Addr 0)"
    "Certificates (Config cycle_doc) ''B'' = Some (Addr 1)"
    "TypeString (heap cycle_doc 0) = ''intermediateCA''" "Issuer (heap cycle_doc 0) = ''B''"
    "TypeString (heap cycle_doc 1) = ''intermediateCA''" "Issuer (heap cycle_doc 1) = ''A''"
    by (simp_all add: cycle_doc_def zero_Type_def zero_Cert_def)
  show ?thesis
    using doc runs links fields by simp
qed

text \<open>
  Claim C4. When \<open>GetConfig\<close> returns \<open>nil\<close> on a parsed document, the certificate
  map is that of the document, every entry of it is a certificate object, and every
  certificate that is not self-signed has an issuer name that is a key of the same
  map; the entry under that key has \<open>IsCA\<close> set, and the certificate's \<open>IssuerCert\<close>
  is the pointer stored under that key.
\<close>

theorem GetConfig_links_issuers:
  assumes read: "ReadFile e (Clean e fn) = Inr configFile"
    and parse: "Unmarshal e configFile s0 = (d, None)"
    and order: "range_of (range_Certificates2 e) (Certificates (Config d))"
    and run: "GetConfig e (Some fn) s0 = (s', Success)"
    and entry: "Certificates (Config s') certName = Some r"
  shows "Certificates (Config s') = Certificates (Config d) \<and>
    (\<exists>p. r = Addr p \<and>
       (\<not> IsSelfSigned (heap s' p) \<longrightarrow>
          (\<exists>q. Certificates (Config s') (Issuer (heap s' p)) = Some (Addr q) \<and>
               IsCA (heap s' q) \<and> IssuerCert (heap s' p) = Addr q)))"
proof -
  have same: "Certificates (Config s') = Certificates (Config d)"
    using GetConfig_Success_facts(1) [OF read parse run] by (simp add: frame_def)
  with entry have "certName \<in> set (range_Certificates2 e)"
    using order by (auto simp: range_of_def)
  from GetConfig_Success_facts(3) [OF read parse run this] entry same
  obtain p where p: "r = Addr p" "link_ok s' p" by auto
  have "\<exists>q. Certificates (Config s') (Issuer (heap s' p)) = Some (Addr q) \<and>
          IsCA (heap s' q) \<and> IssuerCert (heap s' p) = Addr q"
    if "\<not> IsSelfSigned (heap s' p)"
    using p(2) that by (auto simp: link_ok_def split: option.splits ref.splits)
  with same p(1) show ?thesis by blast
qed

text \<open>
  Scenario A: the call returns \<open>nil\<close>, and the server certificate \<open>web\<close> points to
  the entry \<open>root\<close>, which is a CA.
\<close>

theorem GetConfig_links_issuers_witness:
  "GetConfig (parsing_env scenario_A [] [] [''web'', ''root''] [''web'', ''root''])
      (Some ''certs.yaml'') zero_state =
     (fst (GetConfig (parsing_env scenario_A [] [] [''web'', ''root''] [''web'', ''root''])
        (Some ''certs.yaml'') zero_state), Success) \<and>
   range_of [''web'', ''root''] (Certificates (Config scenario_A)) \<and>
   Certificates (Config (fst (GetConfig
      (parsing_env scenario_A [] [] [''web'', ''root''] [''web'', ''root''])
      (Some ''certs.yaml'') zero_state))) ''web'' = Some (Addr 1) \<and>
   \<not> IsSelfSigned (heap (fst (GetConfig
      (parsing_env scenario_A [] [] [''web'', ''root''] [''web'', ''root''])
      (Some ''certs.yaml'') zero_state)) 1) \<and>
   Certificates (Config (fst (GetConfig
      (parsing_env scenario_A [] [] [''web'', ''root''] [''web'', ''root''])
      (Some ''certs.yaml'') zero_state))) ''root'' = Some (Addr 0) \<and>
   IsCA (heap (fst (GetConfig
      (parsing_env scenario_A [] [] [''web'', ''root''] [''web'', ''root''])
      (Some ''certs.yaml'') zero_state)) 0) \<and>
   IssuerCert (heap (fst (GetConfig
      (parsing_env scenario_A [] [] [''web'', ''root''] [''web'', ''root''])
      (Some ''certs.yaml'') zero_state)) 1) = Addr 0"
proof -
  let ?e = "parsing_env scenario_A [] [] [''web'', ''root''] [''web'', ''root'']"
  let ?s = "fst (GetConfig ?e (Some ''certs.yaml'') zero_state)"
  have read: "ReadFile ?e (Clean ?e ''certs.yaml'') = Inr []"
    by (simp add: parsing_env_def)
  have parse: "Unmarshal ?e [] zero_state = (scenario_A, None)"
    by (simp add: parsing_env_def)
  have order: "range_of (range_Certificates2 ?e) (Certificates (Config scenario_A))"
    by (auto simp: range_of_def parsing_env_def scenario_A_def zero_Type_def)
  have run: "GetConfig ?e (Some ''certs.yaml'') zero_state = (?s, Success)"
    by (simp add: run_defs scenario_A_def)
  have entry: "Certificates (Config ?s) ''web'' = Some (Addr 1)"
    by (simp add: run_defs scenario_A_def)
  have iss: "Issuer (heap ?s 1) = ''root''" "\<not> IsSelfSigned (heap ?s 1)"
    by (simp_all add: run_defs scenario_A_def)
  have root: "Certificates (Config ?s) ''root'' = Some (Addr 0)"
    by (simp add: run_defs scenario_A_def)
  from GetConfig_links_issuers [OF read parse order run entry] iss
  obtain q where "Certificates (Config ?s) ''root'' = Some (Addr q)"
    and "IsCA (heap ?s q)" and "IssuerCert (heap ?s 1) = Addr q"
    by auto
  with root have "IsCA (heap ?s 0)" and "IssuerCert (heap ?s 1) = Addr 0"
    by simp_all
  moreover have "range_of [''web'', ''root''] (Certificates (Config scenario_A))"
    using order by (simp add: parsing_env_def)
  ultimately show ?thesis
    using run entry iss(2) root by simp
qed

section \<open>Errors of the linking check\<close>

lemma link_Certificate_MissingIssuer:
  assumes ar: "all_resolved d s"
    and entry: "Certificates (Config d) certName = Some (Addr p)"
    and type: "getCertType (TypeString (heap d p)) = Inr certType"
    and nss: "\<not> isSelfSigned certType"
    and missing: "Certificates (Config d) (Issuer (heap d p)) = None"
  shows "snd (link_Certificate certName s) =
           Failure (MissingIssuer certName (Issuer (heap d p)))"
proof -
  from all_resolved_fields [OF ar entry] type nss
  have "\<not> IsSelfSigned (heap s p)" and "Issuer (heap s p) = Issuer (heap d p)" by auto
  with entry missing all_resolved_Certificates [OF ar] show ?thesis
    by (simp add: link_Certificate_def)
qed

lemma not_passes_link_missing:
  assumes "Certificates (Config d) certName = Some (Addr p)"
    and "getCertType (TypeString (heap d p)) = Inr certType"
    and "\<not> isSelfSigned certType"
    and "Certificates (Config d) (Issuer (heap d p)) = None"
  shows "\<not> passes_link d certName"
  using assms by (simp add: passes_link_def)

text \<open>
  Claim C5, as amended. Take a parsed document with a certificate whose type is
  recognised and not self-signed and whose issuer name is not a key of the certificate
  map. Then \<open>GetConfig\<close> does not return \<open>nil\<close>. It returns the first error it
  meets: when every key under directories and extensions is recognised, every
  certificate entry has a recognised type, and every certificate that the second loop
  visits before this one passes its own issuer check, the error is the missing-issuer
  error with this certificate's name and the missing issuer name.
\<close>

theorem GetConfig_MissingIssuer:
  assumes read: "ReadFile e (Clean e fn) = Inr configFile"
    and parse: "Unmarshal e configFile s0 = (d, None)"
    and order1: "range_of (range_Certificates1 e) (Certificates (Config d))"
    and order2: "range_of (range_Certificates2 e) (Certificates (Config d))"
    and entry: "Certificates (Config d) certName = Some (Addr p)"
    and type: "getCertType (TypeString (heap d p)) = Inr certType"
    and nss: "\<not> isSelfSigned certType"
    and missing: "Certificates (Config d) (Issuer (heap d p)) = None"
  shows "snd (GetConfig e (Some fn) s0) \<noteq> Success \<and>
    (dom (Directories (Config d)) \<subseteq> {''public'', ''private''} \<and>
     dom (Extensions (Config d)) \<subseteq> {''key'', ''certificate''} \<and>
     (\<forall>k\<in>set (range_Certificates1 e). recognised d k) \<and>
     (\<forall>k\<in>set (takeWhile (\<lambda>k. k \<noteq> certName) (range_Certificates2 e)). passes_link d k) \<longrightarrow>
     snd (GetConfig e (Some fn) s0) =
       Failure (MissingIssuer certName (Issuer (heap d p))))"
proof (intro conjI impI)
  show "snd (GetConfig e (Some fn) s0) \<noteq> Success"
    using GetConfig_not_Success [OF read parse order1 order2]
      not_passes_link_missing [OF entry type nss missing] .
next
  assume first:
    "dom (Directories (Config d)) \<subseteq> {''public'', ''private''} \<and>
     dom (Extensions (Config d)) \<subseteq> {''key'', ''certificate''} \<and>
     (\<forall>k\<in>set (range_Certificates1 e). recognised d k) \<and>
     (\<forall>k\<in>set (takeWhile (\<lambda>k. k \<noteq> certName) (range_Certificates2 e)). passes_link d k)"
  have cover: "dom (Certificates (Config d)) \<subseteq> set (range_Certificates1 e)"
    using order1 by (simp add: range_of_def)
  have mem: "certName \<in> set (range_Certificates2 e)"
    using order2 entry by (auto simp: range_of_def)
  from GetConfig_reaches_link [OF read parse _ _ _ cover mem] first
  obtain s where ar: "all_resolved d s"
    and run: "GetConfig e (Some fn) s0 =
      seq (link_Certificate certName s)
        (for_range link_Certificate
           (tl (dropWhile (\<lambda>k. k \<noteq> certName) (range_Certificates2 e))))"
    by blast
  show "snd (GetConfig e (Some fn) s0) =
       Failure (MissingIssuer certName (Issuer (heap d p)))"
    unfolding run
    by (rule snd_seq_Failure)
      (rule link_Certificate_MissingIssuer [OF ar entry type nss missing])
qed

text \<open>Scenario D: the error names \<open>web\<close> and the missing name \<open>ca\<close>.\<close>

theorem GetConfig_MissingIssuer_witness:
  "Certificates (Config scenario_D) ''web'' = Some (Addr 1) \<and>
   getCertType (TypeString (heap scenario_D 1)) =
     Inr \<lparr>ctype = ServerCert, isCA = False, isSelfSigned = False\<rparr> \<and>
   Certificates (Config scenario_D) (Issuer (heap scenario_D 1)) = None \<and>
   snd (GetConfig (parsing_env scenario_D [] [] [''web'', ''root''] [''root'', ''web''])
          (Some ''certs.yaml'') zero_state) =
     Failure (MissingIssuer ''web'' ''ca'')"
proof -
  let ?e = "parsing_env scenario_D [] [] [''web'', ''root''] [''root'', ''web'']"
  have read: "ReadFile ?e (Clean ?e ''certs.yaml'') = Inr []"
    by (simp add: parsing_env_def)
  have parse: "Unmarshal ?e [] zero_state = (scenario_D, None)"
    by (simp add: parsing_env_def)
  have order1: "range_of (range_Certificates1 ?e) (Certificates (Config scenario_D))"
    by (auto simp: range_of_def parsing_env_def scenario_D_def zero_Type_def)
  have order2: "range_of (range_Certificates2 ?e) (Certificates (Config scenario_D))"
    by (auto simp: range_of_def parsing_env_def scenario_D_def zero_Type_def)
  have entry: "Certificates (Config scenario_D) ''web'' = Some (Addr 1)"
    by (simp add: scenario_D_def zero_Type_def)
  have type: "getCertType (TypeString (heap scenario_D 1)) =
      Inr \<lparr>ctype = ServerCert, isCA = False, isSelfSigned = False\<rparr>"
    by (simp add: scenario_D_def zero_Cert_def getCertType_def theMap_def)
  have issuer: "Issuer (heap scenario_D 1) = ''ca''"
    by (simp add: scenario_D_def zero_Cert_def)
  have missing: "Certificates (Config scenario_D) (Issuer (heap scenario_D 1)) = None"
    by (simp add: scenario_D_def zero_Type_def zero_Cert_def)
  have first:
    "dom (Directories (Config scenario_D)) \<subseteq> {''public'', ''private''} \<and>
     dom (Extensions (Config scenario_D)) \<subseteq> {''key'', ''certificate''} \<and>
     (\<forall>k\<in>set (range_Certificates1 ?e). recognised scenario_D k) \<and>
     (\<forall>k\<in>set (takeWhile (\<lambda>k. k \<noteq> ''web'') (range_Certificates2 ?e)).
         passes_link scenario_D k)"
    by (simp add: parsing_env_def scenario_D_def zero_Type_def zero_Cert_def
        recognised_def passes_link_def getCertType_def theMap_def)
  from GetConfig_MissingIssuer [OF read parse order1 order2 entry type _ missing] first
  have "snd (GetConfig ?e (Some ''certs.yaml'') zero_state) =
     Failure (MissingIssuer ''web'' (Issuer (heap scenario_D 1)))"
    by simp
  with entry type missing issuer show ?thesis by simp
qed

text \<open>
  The claim as first stated fails on a document that has another defect which is
  checked earlier: beside the server \<open>web\<close> with the missing issuer \<open>ca\<close> there is a
  certificate of the unknown type \<open>OCSP\<close>. The first loop classifies every certificate
  before the second loop looks up any issuer, so in either order the call returns the
  invalid-type error.
\<close>

theorem GetConfig_MissingIssuer_counterexample:
  "Certificates (Config missing_and_mistyped) ''web'' = Some (Addr 0) \<and>
   getCertType (TypeString (heap missing_and_mistyped 0)) =
     Inr \<lparr>ctype = ServerCert, isCA = False, isSelfSigned = False\<rparr> \<and>
   Issuer (heap missing_and_mistyped 0) = ''ca'' \<and>
   Certificates (Config missing_and_mistyped) ''ca'' = None \<and>
   snd (GetConfig (parsing_env missing_and_mistyped [] [] [''web'', ''signer''] [''web'', ''signer''])
          (Some ''certs.yaml'') zero_state) = Failure (InvalidType ''signer'' ''OCSP'') \<and>
   snd (GetConfig (parsing_env missing_and_mistyped [] [] [''signer'', ''web''] [''web'', ''signer''])
          (Some ''certs.yaml'') zero_state) = Failure (InvalidType ''signer'' ''OCSP'') \<and>
   Failure (InvalidType ''signer'' ''OCSP'') \<noteq> Failure (MissingIssuer ''web'' ''ca'')"
  by (simp add: run_defs missing_and_mistyped_def)

lemma link_Certificate_IssuerNotCA:
  assumes ar: "all_resolved d s"
    and entry: "Certificates (Config d) certName = Some (Addr p)"
    and type: "getCertType (TypeString (heap d p)) = Inr certType"
    and nss: "\<not> isSelfSigned certType"
    and issuer: "Certificates (Config d) (Issuer (heap d p)) = Some (Addr q)"
    and itype: "getCertType (TypeString (heap d q)) = Inr issuerType"
    and nca: "\<not> isCA issuerType"
  shows "snd (link_Certificate certName s) =
           Failure (IssuerNotCA certName (Issuer (heap d p)))"
proof -
  from all_resolved_fields [OF ar entry] type nss
  have p: "\<not> IsSelfSigned (heap s p)" "Issuer (heap s p) = Issuer (heap d p)" by auto
  from all_resolved_fields [OF ar issuer] itype nca
  have q: "\<not> IsCA (heap s q)" by auto
  from p q entry issuer all_resolved_Certificates [OF ar] show ?thesis
    by (auto simp: link_Certificate_def Let_def)
qed

lemma not_passes_link_not_CA:
  assumes "Certificates (Config d) certName = Some (Addr p)"
    and "getCertType (TypeString (heap d p)) = Inr certType"
    and "\<not> isSelfSigned certType"
    and "Certificates (Config d) (Issuer (heap d p)) = Some (Addr q)"
    and "getCertType (TypeString (heap d q)) = Inr issuerType"
    and "\<not> isCA issuerType"
  shows "\<not> passes_link d certName"
  using assms by (simp add: passes_link_def)

text \<open>
  Claim C6, as amended. Take a parsed document with a certificate whose type is
  recognised and not self-signed and whose issuer name is the key of an entry whose
  type is recognised and is not a CA. Then \<open>GetConfig\<close> does not return \<open>nil\<close>. It
  returns the first error it meets: when every key under directories and extensions is
  recognised, every certificate entry has a recognised type, and every certificate that
  the second loop visits before this one passes its own issuer check, the error is the
  issuer-not-a-CA error with this certificate's name and the issuer's name.
\<close>

theorem GetConfig_IssuerNotCA:
  assumes read: "ReadFile e (Clean e fn) = Inr configFile"
    and parse: "Unmarshal e configFile s0 = (d, None)"
    and order1: "range_of (range_Certificates1 e) (Certificates (Config d))"
    and order2: "range_of (range_Certificates2 e) (Certificates (Config d))"
    and entry: "Certificates (Config d) certName = Some (Addr p)"
    and type: "getCertType (TypeString (heap d p)) = Inr certType"
    and nss: "\<not> isSelfSigned certType"
    and issuer: "Certificates (Config d) (Issuer (heap d p)) = Some (Addr q)"
    and itype: "getCertType (TypeString (heap d q)) = Inr issuerType"
    and nca: "\<not> isCA issuerType"
  shows "snd (GetConfig e (Some fn) s0) \<noteq> Success \<and>
    (dom (Directories (Config d)) \<subseteq> {''public'', ''private''} \<and>
     dom (Extensions (Config d)) \<subseteq> {''key'', ''certificate''} \<and>
     (\<forall>k\<in>set (range_Certificates1 e). recognised d k) \<and>
     (\<forall>k\<in>set (takeWhile (\<lambda>k. k \<noteq> certName) (range_Certificates2 e)). passes_link d k) \<longrightarrow>
     snd (GetConfig e (Some fn) s0) =
       Failure (IssuerNotCA certName (Issuer (heap d p))))"
proof (intro conjI impI)
  show "snd (GetConfig e (Some fn) s0) \<noteq> Success"
    using GetConfig_not_Success [OF read parse order1 order2]
      not_passes_link_not_CA [OF entry type nss issuer itype nca] .
next
  assume first:
    "dom (Directories (Config d)) \<subseteq> {''public'', ''private''} \<and>
     dom (Extensions (Config d)) \<subseteq> {''key'', ''certificate''} \<and>
     (\<forall>k\<in>set (range_Certificates1 e). recognised d k) \<and>
     (\<forall>k\<in>set (takeWhile (\<lambda>k. k \<noteq> certName) (range_Certificates2 e)). passes_link d k)"
  have cover: "dom (Certificates (Config d)) \<subseteq> set (range_Certificates1 e)"
    using order1 by (simp add: range_of_def)
  have mem: "certName \<in> set (range_Certificates2 e)"
    using order2 entry by (auto simp: range_of_def)
  from GetConfig_reaches_link [OF read parse _ _ _ cover mem] first
  obtain s where ar: "all_resolved d s"
    and run: "GetConfig e (Some fn) s0 =
      seq (link_Certificate certName s)
        (for_range link_Certificate
           (tl (dropWhile (\<lambda>k. k \<noteq> certName) (range_Certificates2 e))))"
    by blast
  show "snd (GetConfig e (Some fn) s0) =
       Failure (IssuerNotCA certName (Issuer (heap d p)))"
    unfolding run
    by (rule snd_seq_Failure)
      (rule link_Certificate_IssuerNotCA [OF ar entry type nss issuer itype nca])
qed

text \<open>Scenario B: the error names \<open>web\<close> and its issuer \<open>cli\<close>, a client certificate.\<close>

theorem GetConfig_IssuerNotCA_witness:
  "Certificates (Config scenario_B) ''web'' = Some (Addr 2) \<and>
   getCertType (TypeString (heap scenario_B 2)) =
     Inr \<lparr>ctype = ServerCert, isCA = False, isSelfSigned = False\<rparr> \<and>
   Issuer (heap scenario_B 2) = ''cli'' \<and>
   Certificates (Config scenario_B) ''cli'' = Some (Addr 1) \<and>
   getCertType (TypeString (heap scenario_B 1)) =
     Inr \<lparr>ctype = ClientCert, isCA = False, isSelfSigned = False\<rparr> \<and>
   snd (GetConfig
          (parsing_env scenario_B [] [] [''web'', ''cli'', ''root''] [''cli'', ''root'', ''web''])
          (Some ''certs.yaml'') zero_state) =
     Failure (IssuerNotCA ''web'' ''cli'')"
proof -
  let ?e = "parsing_env scenario_B [] [] [''web'', ''cli'', ''root''] [''cli'', ''root'', ''web'']"
  have read: "ReadFile ?e (Clean ?e ''certs.yaml'') = Inr []"
    by (simp add: parsing_env_def)
  have parse: "Unmarshal ?e [] zero_state = (scenario_B, None)"
    by (simp add: parsing_env_def)
  have order1: "range_of (range_Certificates1 ?e) (Certificates (Config scenario_B))"
    by (auto simp: range_of_def parsing_env_def scenario_B_def zero_Type_def)
  have order2: "range_of (range_Certificates2 ?e) (Certificates (Config scenario_B))"
    by (auto simp: range_of_def parsing_env_def scenario_B_def zero_Type_def)
  have entry: "Certificates (Config scenario_B) ''web'' = Some (Addr 2)"
    by (simp add: scenario_B_def zero_Type_def)
  have type: "getCertType (TypeString (heap scenario_B 2)) =
      Inr \<lparr>ctype = ServerCert, isCA = False, isSelfSigned = False\<rparr>"
    by (simp add: scenario_B_def zero_Cert_def getCertType_def theMap_def)
  have name: "Issuer (heap scenario_B 2) = ''cli''"
    by (simp add: scenario_B_def zero_Cert_def)
  have issuer: "Certificates (Config scenario_B) (Issuer (heap scenario_B 2)) = Some (Addr 1)"
    by (simp add: scenario_B_def zero_Type_def zero_Cert_def)
  have itype: "getCertType (TypeString (heap scenario_B 1)) =
      Inr \<lparr>ctype = ClientCert, isCA = False, isSelfSigned = False\<rparr>"
    by (simp add: scenario_B_def zero_Cert_def getCertType_def theMap_def)
  have first:
    "dom (Directories (Config scenario_B)) \<subseteq> {''public'', ''private''} \<and>
     dom (Extensions (Config scenario_B)) \<subseteq> {''key'', ''certificate''} \<and>
     (\<forall>k\<in>set (range_Certificates1 ?e). recognised scenario_B k) \<and>
     (\<forall>k\<in>set (takeWhile (\<lambda>k. k \<noteq> ''web'') (range_Certificates2 ?e)).
         passes_link scenario_B k)"
    by (simp add: parsing_env_def scenario_B_def zero_Type_def zero_Cert_def
        recognised_def passes_link_def getCertType_def theMap_def)
  from GetConfig_IssuerNotCA [OF read parse order1 order2 entry type _ issuer itype] first
  have "snd (GetConfig ?e (Some ''certs.yaml'') zero_state) =
     Failure (IssuerNotCA ''web'' (Issuer (heap scenario_B 2)))"
    by simp
  with entry type name issuer itype show ?thesis by simp
qed

text \<open>
  The claim as first stated fails on scenario B with the unknown key \<open>backup\<close> added
  under directories: the directories are checked before any certificate, and the call
  returns the error of that key.
\<close>

theorem GetConfig_IssuerNotCA_counterexample:
  "Certificates (Config scenario_B_backup) ''web'' = Some (Addr 2) \<and>
   getCertType (TypeString (heap scenario_B_backup 2)) =
     Inr \<lparr>ctype = ServerCert, isCA = False, isSelfSigned = False\<rparr> \<and>
   Issuer (heap scenario_B_backup 2) = ''cli'' \<and>
   Certificates (Config scenario_B_backup) ''cli'' = Some (Addr 1) \<and>
   getCertType (TypeString (heap scenario_B_backup 1)) =
     Inr \<lparr>ctype = ClientCert, isCA = False, isSelfSigned = False\<rparr> \<and>
   snd (GetConfig
          (parsing_env scenario_B_backup [''backup''] []
             [''web'', ''cli'', ''root''] [''web'', ''cli'', ''root''])
          (Some ''certs.yaml'') zero_state) =
     Failure (InvalidDirectoryEntry ''backup'' ''certs.yaml'') \<and>
   Failure (InvalidDirectoryEntry ''backup'' ''certs.yaml'') \<noteq>
     Failure (IssuerNotCA ''web'' ''cli'')"
  by (simp add: run_defs scenario_B_backup_def scenario_B_def)

lemma link_Certificate_SelfSignedWithIssuer:
  assumes ar: "all_resolved d s"
    and entry: "Certificates (Config d) certName = Some (Addr p)"
    and type: "getCertType (TypeString (heap d p)) = Inr certType"
    and ss: "isSelfSigned certType"
    and nonempty: "Issuer (heap d p) \<noteq> []"
  shows "snd (link_Certificate certName s) = Failure (SelfSignedWithIssuer certName)"
proof -
  from all_resolved_fields [OF ar entry] type ss
  have "IsSelfSigned (heap s p)" and "Issuer (heap s p) = Issuer (heap d p)" by auto
  with entry nonempty all_resolved_Certificates [OF ar] show ?thesis
    by (simp add: link_Certificate_def)
qed

lemma not_passes_link_self_signed:
  assumes "Certificates (Config d) certName = Some (Addr p)"
    and "getCertType (TypeString (heap d p)) = Inr certType"
    and "isSelfSigned certType"
    and "Issuer (heap d p) \<noteq> []"
  shows "\<not> passes_link d certName"
  using assms by (simp add: passes_link_def)

text \<open>
  Claim C7, as amended. Take a parsed document with a certificate whose type is
  self-signed, which only the tag rootCA is, and whose issuer name is not empty. Then
  \<open>GetConfig\<close> does not return \<open>nil\<close>. It returns the first error it meets: when
  every key under directories and extensions is recognised, every certificate entry has
  a recognised type, and every certificate that the second loop visits before this one
  passes its own issuer check, the error is the self-signed-with-issuer error with
  this certificate's name.
\<close>

theorem GetConfig_SelfSignedWithIssuer:
  assumes read: "ReadFile e (Clean e fn) = Inr configFile"
    and parse: "Unmarshal e configFile s0 = (d, None)"
    and order1: "range_of (range_Certificates1 e) (Certificates (Config d))"
    and order2: "range_of (range_Certificates2 e) (Certificates (Config d))"
    and entry: "Certificates (Config d) certName = Some (Addr p)"
    and type: "getCertType (TypeString (heap d p)) = Inr certType"
    and ss: "isSelfSigned certType"
    and nonempty: "Issuer (heap d p) \<noteq> []"
  shows "TypeString (heap d p) = ''rootCA'' \<and>
    snd (GetConfig e (Some fn) s0) \<noteq> Success \<and>
    (dom (Directories (Config d)) \<subseteq> {''public'', ''private''} \<and>
     dom (Extensions (Config d)) \<subseteq> {''key'', ''certificate''} \<and>
     (\<forall>k\<in>set (range_Certificates1 e). recognised d k) \<and>
     (\<forall>k\<in>set (takeWhile (\<lambda>k. k \<noteq> certName) (range_Certificates2 e)). passes_link d k) \<longrightarrow>
     snd (GetConfig e (Some fn) s0) = Failure (SelfSignedWithIssuer certName))"
proof (intro conjI impI)
  show "TypeString (heap d p) = ''rootCA''"
    using type ss
    by (auto simp: getCertType_def theMap_def split: option.splits if_splits)
next
  show "snd (GetConfig e (Some fn) s0) \<noteq> Success"
    using GetConfig_not_Success [OF read parse order1 order2]
      not_passes_link_self_signed [OF entry type ss nonempty] .
next
  assume first:
    "dom (Directories (Config d)) \<subseteq> {''public'', ''private''} \<and>
     dom (Extensions (Config d)) \<subseteq> {''key'', ''certificate''} \<and>
     (\<forall>k\<in>set (range_Certificates1 e). recognised d k) \<and>
     (\<forall>k\<in>set (takeWhile (\<lambda>k. k \<noteq> certName) (range_Certificates2 e)). passes_link d k)"
  have cover: "dom (Certificates (Config d)) \<subseteq> set (range_Certificates1 e)"
    using order1 by (simp add: range_of_def)
  have mem: "certName \<in> set (range_Certificates2 e)"
    using order2 entry by (auto simp: range_of_def)
  from GetConfig_reaches_link [OF read parse _ _ _ cover mem] first
  obtain s where ar: "all_resolved d s"
    and run: "GetConfig e (Some fn) s0 =
      seq (link_Certificate certName s)
        (for_range link_Certificate
           (tl (dropWhile (\<lambda>k. k \<noteq> certName) (range_Certificates2 e))))"
    by blast
  show "snd (GetConfig e (Some fn) s0) = Failure (SelfSignedWithIssuer certName)"
    unfolding run
    by (rule snd_seq_Failure)
      (rule link_Certificate_SelfSignedWithIssuer [OF ar entry type ss nonempty])
qed

text \<open>Scenario C: the error names the root certificate.\<close>

theorem GetConfig_SelfSignedWithIssuer_witness:
  "Certificates (Config scenario_C) ''root'' = Some (Addr 0) \<and>
   getCertType (TypeString (heap scenario_C 0)) =
     Inr \<lparr>ctype = RootCACert, isCA = True, isSelfSigned = True\<rparr> \<and>
   Issuer (heap scenario_C 0) = ''other'' \<and>
   snd (GetConfig (parsing_env scenario_C [] [] [''root''] [''root''])
          (Some ''certs.yaml'') zero_state) =
     Failure (SelfSignedWithIssuer ''root'')"
proof -
  let ?e = "parsing_env scenario_C [] [] [''root''] [''root'']"
  have read: "ReadFile ?e (Clean ?e ''certs.yaml'') = Inr []"
    by (simp add: parsing_env_def)
  have parse: "Unmarshal ?e [] zero_state = (scenario_C, None)"
    by (simp add: parsing_env_def)
  have order1: "range_of (range_Certificates1 ?e) (Certificates (Config scenario_C))"
    by (auto simp: range_of_def parsing_env_def scenario_C_def zero_Type_def)
  have order2: "range_of (range_Certificates2 ?e) (Certificates (Config scenario_C))"
    by (auto simp: range_of_def parsing_env_def scenario_C_def zero_Type_def)
  have entry: "Certificates (Config scenario_C) ''root'' = Some (Addr 0)"
    by (simp add: scenario_C_def zero_Type_def)
  have type: "getCertType (TypeString (heap scenario_C 0)) =
      Inr \<lparr>ctype = RootCACert, isCA = True, isSelfSigned = True\<rparr>"
    by (simp add: scenario_C_def zero_Cert_def getCertType_def theMap_def)
  have name: "Issuer (heap scenario_C 0) = ''other''"
    by (simp add: scenario_C_def zero_Cert_def)
  have first:
    "dom (Directories (Config scenario_C)) \<subseteq> {''public'', ''private''} \<and>
     dom (Extensions (Config scenario_C)) \<subseteq> {''key'', ''certificate''} \<and>
     (\<forall>k\<in>set (range_Certificates1 ?e). recognised scenario_C k) \<and>
     (\<forall>k\<in>set (takeWhile (\<lambda>k. k \<noteq> ''root'') (range_Certificates2 ?e)).
         passes_link scenario_C k)"
    by (simp add: parsing_env_def scenario_C_def zero_Type_def zero_Cert_def
        recognised_def passes_link_def getCertType_def theMap_def)
  from GetConfig_SelfSignedWithIssuer [OF read parse order1 order2 entry type] name first
  have "snd (GetConfig ?e (Some ''certs.yaml'') zero_state) =
     Failure (SelfSignedWithIssuer ''root'')"
    by simp
  with entry type name show ?thesis by simp
qed

text \<open>
  The claim as first stated fails on scenario C with the unknown key \<open>zip\<close> added
  under extensions: the extensions are checked before any certificate, and the call
  returns the error of that key.
\<close>

theorem GetConfig_SelfSignedWithIssuer_counterexample:
  "Certificates (Config scenario_C_zip) ''root'' = Some (Addr 0) \<and>
   getCertType (TypeString (heap scenario_C_zip 0)) =
     Inr \<lparr>ctype = RootCACert, isCA = True, isSelfSigned = True\<rparr> \<and>
   Issuer (heap scenario_C_zip 0) = ''other'' \<and>
   snd (GetConfig (parsing_env scenario_C_zip [] [''zip''] [''root''] [''root''])
          (Some ''certs.yaml'') zero_state) =
     Failure (InvalidExtensionEntry ''zip'' ''z'') \<and>
   Failure (InvalidExtensionEntry ''zip'' ''z'') \<noteq> Failure (SelfSignedWithIssuer ''root'')"
  by (simp add: run_defs scenario_C_zip_def scenario_C_def)

text \<open>
  Claim C10, as amended. Take a parsed document with a certificate of type
  intermediateCA, OCSPSigning, server or client whose issuer name is the empty string,
  and with no entry under the empty key. Then \<open>GetConfig\<close> does not return \<open>nil\<close>:
  the omitted issuer is a failed lookup of the empty name, not an error kind of its
  own. It returns the first error it meets: when every key under directories and
  extensions is recognised, every certificate entry has a recognised type, and every
  certificate that the second loop visits before this one passes its own issuer check,
  the error is the missing-issuer error with this certificate's name and the empty
  issuer name.
\<close>

theorem GetConfig_omitted_issuer:
  assumes read: "ReadFile e (Clean e fn) = Inr configFile"
    and parse: "Unmarshal e configFile s0 = (d, None)"
    and order1: "range_of (range_Certificates1 e) (Certificates (Config d))"
    and order2: "range_of (range_Certificates2 e) (Certificates (Config d))"
    and entry: "Certificates (Config d) certName = Some (Addr p)"
    and type: "TypeString (heap d p) \<in> {''intermediateCA'', ''OCSPSigning'', ''server'', ''client''}"
    and omitted: "Issuer (heap d p) = []"
    and nokey: "Certificates (Config d) [] = None"
  shows "snd (GetConfig e (Some fn) s0) \<noteq> Success \<and>
    (dom (Directories (Config d)) \<subseteq> {''public'', ''private''} \<and>
     dom (Extensions (Config d)) \<subseteq> {''key'', ''certificate''} \<and>
     (\<forall>k\<in>set (range_Certificates1 e). recognised d k) \<and>
     (\<forall>k\<in>set (takeWhile (\<lambda>k. k \<noteq> certName) (range_Certificates2 e)). passes_link d k) \<longrightarrow>
     snd (GetConfig e (Some fn) s0) = Failure (MissingIssuer certName []))"
proof -
  from type obtain certType where
    ct: "getCertType (TypeString (heap d p)) = Inr certType" and nss: "\<not> isSelfSigned certType"
    by (auto simp: getCertType_def theMap_def)
  have missing: "Certificates (Config d) (Issuer (heap d p)) = None"
    using omitted nokey by simp
  show ?thesis
  proof (intro conjI impI)
    show "snd (GetConfig e (Some fn) s0) \<noteq> Success"
      using GetConfig_not_Success [OF read parse order1 order2]
        not_passes_link_missing [OF entry ct nss missing] .
  next
    assume first:
      "dom (Directories (Config d)) \<subseteq> {''public'', ''private''} \<and>
       dom (Extensions (Config d)) \<subseteq> {''key'', ''certificate''} \<and>
       (\<forall>k\<in>set (range_Certificates1 e). recognised d k) \<and>
       (\<forall>k\<in>set (takeWhile (\<lambda>k. k \<noteq> certName) (range_Certificates2 e)). passes_link d k)"
    have cover: "dom (Certificates (Config d)) \<subseteq> set (range_Certificates1 e)"
      using order1 by (simp add: range_of_def)
    have mem: "certName \<in> set (range_Certificates2 e)"
      using order2 entry by (auto simp: range_of_def)
    from GetConfig_reaches_link [OF read parse _ _ _ cover mem] first
    obtain s where ar: "all_resolved d s"
      and run: "GetConfig e (Some fn) s0 =
        seq (link_Certificate certName s)
          (for_range link_Certificate
             (tl (dropWhile (\<lambda>k. k \<noteq> certName) (range_Certificates2 e))))"
      by blast
    have "snd (link_Certificate certName s) = Failure (MissingIssuer certName [])"
      using link_Certificate_MissingIssuer [OF ar entry ct nss missing] omitted by simp
    then show "snd (GetConfig e (Some fn) s0) = Failure (MissingIssuer certName [])"
      unfolding run by (rule snd_seq_Failure)
  qed
qed

text \<open>A server certificate without issuer beside a root: the error names \<open>web\<close>.\<close>

theorem GetConfig_omitted_issuer_witness:
  "Certificates (Config no_issuer_doc) ''web'' = Some (Addr 1) \<and>
   TypeString (heap no_issuer_doc 1) = ''server'' \<and>
   Issuer (heap no_issuer_doc 1) = [] \<and>
   Certificates (Config no_issuer_doc) [] = None \<and>
   snd (GetConfig (parsing_env no_issuer_doc [] [] [''root'', ''web''] [''root'', ''web''])
          (Some ''certs.yaml'') zero_state) =
     Failure (MissingIssuer ''web'' [])"
proof -
  let ?e = "parsing_env no_issuer_doc [] [] [''root'', ''web''] [''root'', ''web'']"
  have read: "ReadFile ?e (Clean ?e ''certs.yaml'') = Inr []"
    by (simp add: parsing_env_def)
  have parse: "Unmarshal ?e [] zero_state = (no_issuer_doc, None)"
    by (simp add: parsing_env_def)
  have order1: "range_of (range_Certificates1 ?e) (Certificates (Config no_issuer_doc))"
    by (auto simp: range_of_def parsing_env_def no_issuer_doc_def zero_Type_def)
  have order2: "range_of (range_Certificates2 ?e) (Certificates (Config no_issuer_doc))"
    by (auto simp: range_of_def parsing_env_def no_issuer_doc_def zero_Type_def)
  have entry: "Certificates (Config no_issuer_doc) ''web'' = Some (Addr 1)"
    by (simp add: no_issuer_doc_def zero_Type_def)
  have tag: "TypeString (heap no_issuer_doc 1) = ''server''"
    by (simp add: no_issuer_doc_def zero_Cert_def)
  have omitted: "Issuer (heap no_issuer_doc 1) = []"
    by (simp add: no_issuer_doc_def zero_Cert_def)
  have nokey: "Certificates (Config no_issuer_doc) [] = None"
    by (simp add: no_issuer_doc_def zero_Type_def)
  have first:
    "dom (Directories (Config no_issuer_doc)) \<subseteq> {''public'', ''private''} \<and>
     dom (Extensions (Config no_issuer_doc)) \<subseteq> {''key'', ''certificate''} \<and>
     (\<forall>k\<in>set (range_Certificates1 ?e). recognised no_issuer_doc k) \<and>
     (\<forall>k\<in>set (takeWhile (\<lambda>k. k \<noteq> ''web'') (range_Certificates2 ?e)).
         passes_link no_issuer_doc k)"
    by (simp add: parsing_env_def no_issuer_doc_def zero_Type_def zero_Cert_def
        recognised_def passes_link_def getCertType_def theMap_def)
  from GetConfig_omitted_issuer [OF read parse order1 order2 entry _ omitted nokey] tag first
  have "snd (GetConfig ?e (Some ''certs.yaml'') zero_state) = Failure (MissingIssuer ''web'' [])"
    by simp
  with entry tag omitted nokey show ?thesis by simp
qed

text \<open>
  The claim as first stated fails on a document with two such certificates: the call
  returns at the first one the second loop visits, so in each order the error names
  one of them and not the other.
\<close>

theorem GetConfig_omitted_issuer_counterexample:
  "Certificates (Config two_without_issuer) ''web1'' = Some (Addr 0) \<and>
   Certificates (Config two_without_issuer) ''web2'' = Some (Addr 1) \<and>
   Certificates (Config two_without_issuer) [] = None \<and>
   TypeString (heap two_without_issuer 0) = ''server'' \<and>
   Issuer (heap two_without_issuer 0) = [] \<and>
   TypeString (heap two_without_issuer 1) = ''client'' \<and>
   Issuer (heap two_without_issuer 1) = [] \<and>
   snd (GetConfig (parsing_env two_without_issuer [] [] [''web1'', ''web2''] [''web1'', ''web2''])
          (Some ''certs.yaml'') zero_state) = Failure (MissingIssuer ''web1'' []) \<and>
   Failure (MissingIssuer ''web1'' []) \<noteq> Failure (MissingIssuer ''web2'' []) \<and>
   snd (GetConfig (parsing_env two_without_issuer [] [] [''web1'', ''web2''] [''web2'', ''web1''])
          (Some ''certs.yaml'') zero_state) = Failure (MissingIssuer ''web2'' []) \<and>
   Failure (MissingIssuer ''web2'' []) \<noteq> Failure (MissingIssuer ''web1'' [])"
  by (simp add: run_defs two_without_issuer_def)

section \<open>Directories and extensions\<close>

lemma range_Directories_values:
  assumes "for_range (set_Directory fn) ks s = (s', Success)"
  shows "PublicDirectory (Config s') =
           (case Directories (Config s) ''public'' of
              None \<Rightarrow> PublicDirectory (Config s)
            | Some dir \<Rightarrow> if ''public'' \<in> set ks then dir else PublicDirectory (Config s)) \<and>
         PrivateDirectory (Config s') =
           (case Directories (Config s) ''private'' of
              None \<Rightarrow> PrivateDirectory (Config s)
            | Some dir \<Rightarrow> if ''private'' \<in> set ks then dir else PrivateDirectory (Config s))"
  using assms
proof (induction ks arbitrary: s)
  case Nil
  then show ?case by (simp split: option.splits)
next
  case (Cons k ks)
  obtain s1 o1 where b: "set_Directory fn k s = (s1, o1)" by (cases "set_Directory fn k s")
  with Cons.prems have o1: "o1 = Success"
    and rest: "for_range (set_Directory fn) ks s1 = (s', Success)"
    by (cases o1; simp)+
  have same: "Directories (Config s1) = Directories (Config s)"
    using set_Directory_frame [OF b] by (simp add: frame_def)
  from b o1 have step:
    "PublicDirectory (Config s1) =
       (case Directories (Config s) ''public'' of
          None \<Rightarrow> PublicDirectory (Config s)
        | Some dir \<Rightarrow> if k = ''public'' then dir else PublicDirectory (Config s))"
    "PrivateDirectory (Config s1) =
       (case Directories (Config s) ''private'' of
          None \<Rightarrow> PrivateDirectory (Config s)
        | Some dir \<Rightarrow> if k = ''private'' then dir else PrivateDirectory (Config s))"
    by (auto simp: set_Directory_def split: option.splits if_splits)
  from Cons.IH [OF rest] same step show ?case
    by (auto split: option.splits)
qed

lemma range_Extensions_values:
  assumes "for_range set_Extension ks s = (s', Success)"
  shows "ExtensionKey (Config s') =
           (case Extensions (Config s) ''key'' of
              None \<Rightarrow> ExtensionKey (Config s)
            | Some ext \<Rightarrow> if ''key'' \<in> set ks then ext else ExtensionKey (Config s)) \<and>
         ExtensionCert (Config s') =
           (case Extensions (Config s) ''certificate'' of
              None \<Rightarrow> ExtensionCert (Config s)
            | Some ext \<Rightarrow>
                if ''certificate'' \<in> set ks then ext else ExtensionCert (Config s))"
  using assms
proof (induction ks arbitrary: s)
  case Nil
  then show ?case by (simp split: option.splits)
next
  case (Cons k ks)
  obtain s1 o1 where b: "set_Extension k s = (s1, o1)" by (cases "set_Extension k s")
  with Cons.prems have o1: "o1 = Success"
    and rest: "for_range set_Extension ks s1 = (s', Success)"
    by (cases o1; simp)+
  have same: "Extensions (Config s1) = Extensions (Config s)"
    using set_Extension_frame [OF b] by (simp add: frame_def)
  from b o1 have step:
    "ExtensionKey (Config s1) =
       (case Extensions (Config s) ''key'' of
          None \<Rightarrow> ExtensionKey (Config s)
        | Some ext \<Rightarrow> if k = ''key'' then ext else ExtensionKey (Config s))"
    "ExtensionCert (Config s1) =
       (case Extensions (Config s) ''certificate'' of
          None \<Rightarrow> ExtensionCert (Config s)
        | Some ext \<Rightarrow> if k = ''certificate'' then ext else ExtensionCert (Config s))"
    by (auto simp: set_Extension_def split: option.splits if_splits)
  from Cons.IH [OF rest] same step show ?case
    by (auto split: option.splits)
qed

lemma range_Directories_first_unknown:
  assumes "set ks \<subseteq> dom (Directories (Config s))"
    and "find (\<lambda>k. k \<notin> {''public'', ''private''}) ks = Some dirName"
  shows "snd (for_range (set_Directory fn) ks s) =
           Failure (InvalidDirectoryEntry dirName fn)"
  using assms
proof (induction ks arbitrary: s)
  case Nil
  then show ?case by simp
next
  case (Cons k ks)
  from Cons.prems(1) obtain dir where dir: "Directories (Config s) k = Some dir" by auto
  show ?case
  proof (cases "k \<in> {''public'', ''private''}")
    case False
    with Cons.prems(2) dir show ?thesis by (simp add: set_Directory_def)
  next
    case True
    with dir obtain s1 where b: "set_Directory fn k s = (s1, Success)"
      by (auto simp: set_Directory_def)
    have "Directories (Config s1) = Directories (Config s)"
      using set_Directory_frame [OF b] by (simp add: frame_def)
    with Cons.prems(1) have "set ks \<subseteq> dom (Directories (Config s1))" by simp
    from Cons.IH [OF this] Cons.prems(2) True b show ?thesis by auto
  qed
qed

lemma range_Extensions_first_unknown:
  assumes "set ks \<subseteq> dom (Extensions (Config s))"
    and "find (\<lambda>k. k \<notin> {''key'', ''certificate''}) ks = Some extName"
  shows "\<exists>ext. Extensions (Config s) extName = Some ext \<and>
           snd (for_range set_Extension ks s) = Failure (InvalidExtensionEntry extName ext)"
  using assms
proof (induction ks arbitrary: s)
  case Nil
  then show ?case by simp
next
  case (Cons k ks)
  from Cons.prems(1) obtain ext where ext: "Extensions (Config s) k = Some ext" by auto
  show ?case
  proof (cases "k \<in> {''key'', ''certificate''}")
    case False
    with Cons.prems(2) ext show ?thesis by (simp add: set_Extension_def)
  next
    case True
    with ext obtain s1 where b: "set_Extension k s = (s1, Success)"
      by (auto simp: set_Extension_def)
    have same: "Extensions (Config s1) = Extensions (Config s)"
      using set_Extension_frame [OF b] by (simp add: frame_def)
    with Cons.prems(1) have "set ks \<subseteq> dom (Extensions (Config s1))" by simp
    from Cons.IH [OF this] Cons.prems(2) True b same show ?thesis by auto
  qed
qed

lemma find_unknown:
  "k \<in> set ks \<Longrightarrow> k \<notin> K \<Longrightarrow> \<exists>k'. find (\<lambda>k. k \<notin> K) ks = Some k'"
  by (induction ks) auto

lemma Config_after_certificates:
  "Config (fst (seq (for_range setup_Certificate ks1 s)
             (\<lambda>s4. for_range link_Certificate ks2 s4))) = Config s"
proof -
  obtain s4 o3 where r3: "for_range setup_Certificate ks1 s = (s4, o3)"
    by (cases "for_range setup_Certificate ks1 s")
  have c4: "Config s4 = Config s" using range_Certificates1_frame [OF r3] by simp
  show ?thesis
  proof (cases o3)
    case Success
    obtain s5 o4 where r4: "for_range link_Certificate ks2 s4 = (s5, o4)"
      by (cases "for_range link_Certificate ks2 s4")
    have "Config s5 = Config s4"
      using range_Certificates2_same [OF r4] by (simp add: same_resolved_def)
    with r3 r4 c4 Success show ?thesis by (simp add: seq_def)
  next
    case (Failure err)
    with r3 c4 show ?thesis by (simp add: seq_def)
  next
    case Panic
    with r3 c4 show ?thesis by (simp add: seq_def)
  qed
qed

text \<open>
  Claim C9, as amended. On a parsed document \<open>GetConfig\<close> returns the first error it
  meets. If some key under directories is neither public nor private, it fails with
  the invalid-directories-entry error naming the first such key in the order of the
  loop. If every key under directories is recognised and some key under extensions is
  neither key nor certificate, it fails with the invalid-extensions-entry error naming
  the first such key (with the key's value as second argument). If every key of both
  sections is recognised, then in the state the call leaves, whatever it returns, each
  of the four values is the entry of its key when the key is present and the default
  when it is absent: \<open>tls\<close>, \<open>tls/private\<close>, \<open>key\<close>, \<open>pem\<close>.
\<close>

theorem GetConfig_directories_extensions:
  assumes read: "ReadFile e (Clean e fn) = Inr configFile"
    and parse: "Unmarshal e configFile s0 = (d, None)"
    and orderD: "range_of (range_Directories e) (Directories (Config d))"
    and orderE: "range_of (range_Extensions e) (Extensions (Config d))"
  shows
    "(k \<in> dom (Directories (Config d)) \<and> k \<notin> {''public'', ''private''} \<longrightarrow>
        (\<exists>dirName.
           find (\<lambda>k. k \<notin> {''public'', ''private''}) (range_Directories e) = Some dirName \<and>
           snd (GetConfig e (Some fn) s0) = Failure (InvalidDirectoryEntry dirName fn))) \<and>
     (dom (Directories (Config d)) \<subseteq> {''public'', ''private''} \<and>
      k \<in> dom (Extensions (Config d)) \<and> k \<notin> {''key'', ''certificate''} \<longrightarrow>
        (\<exists>extName ext.
           find (\<lambda>k. k \<notin> {''key'', ''certificate''}) (range_Extensions e) = Some extName \<and>
           Extensions (Config d) extName = Some ext \<and>
           snd (GetConfig e (Some fn) s0) = Failure (InvalidExtensionEntry extName ext))) \<and>
     (dom (Directories (Config d)) \<subseteq> {''public'', ''private''} \<and>
      dom (Extensions (Config d)) \<subseteq> {''key'', ''certificate''} \<longrightarrow>
        PublicDirectory (Config (fst (GetConfig e (Some fn) s0))) =
          (case Directories (Config d) ''public'' of None \<Rightarrow> ''tls'' | Some dir \<Rightarrow> dir) \<and>
        PrivateDirectory (Config (fst (GetConfig e (Some fn) s0))) =
          (case Directories (Config d) ''private'' of
             None \<Rightarrow> ''tls/private'' | Some dir \<Rightarrow> dir) \<and>
        ExtensionKey (Config (fst (GetConfig e (Some fn) s0))) =
          (case Extensions (Config d) ''key'' of None \<Rightarrow> ''key'' | Some ext \<Rightarrow> ext) \<and>
        ExtensionCert (Config (fst (GetConfig e (Some fn) s0))) =
          (case Extensions (Config d) ''certificate'' of
             None \<Rightarrow> ''pem'' | Some ext \<Rightarrow> ext))"
proof -
  let ?s1 = "d\<lparr>Config := (Config d)
                 \<lparr>PublicDirectory := defaultPublicDirectory,
                  PrivateDirectory := defaultPrivateDirectory\<rparr>\<rparr>"
  note run = GetConfig_parsed [OF read parse]
  have setD: "set (range_Directories e) = dom (Directories (Config ?s1))"
    using orderD by (simp add: range_of_def)
  have part1: "\<exists>dirName.
      find (\<lambda>k. k \<notin> {''public'', ''private''}) (range_Directories e) = Some dirName \<and>
      snd (GetConfig e (Some fn) s0) = Failure (InvalidDirectoryEntry dirName fn)"
    if "k \<in> dom (Directories (Config d))" "k \<notin> {''public'', ''private''}"
  proof -
    from that setD have "k \<in> set (range_Directories e)" by simp
    from find_unknown [OF this that(2)] obtain dirName where
      f: "find (\<lambda>k. k \<notin> {''public'', ''private''}) (range_Directories e) = Some dirName"
      by blast
    have "snd (for_range (set_Directory fn) (range_Directories e) ?s1) =
        Failure (InvalidDirectoryEntry dirName fn)"
      using range_Directories_first_unknown [OF _ f] setD by blast
    then have "snd (GetConfig e (Some fn) s0) = Failure (InvalidDirectoryEntry dirName fn)"
      unfolding run by (rule snd_seq_Failure)
    with f show ?thesis by blast
  qed
  have rest: ?thesis if dirs: "dom (Directories (Config d)) \<subseteq> {''public'', ''private''}"
  proof -
    have "dom (Directories (Config ?s1)) \<subseteq> {''public'', ''private''}"
      using dirs by simp
    from range_Directories_total [OF this] obtain s2 where
      r1: "for_range (set_Directory fn) (range_Directories e) ?s1 = (s2, Success)" by blast
    have f2: "frame d s2"
      using range_Directories_frame [OF r1] frame_init_Directories frame_trans by blast
    let ?s2 = "s2\<lparr>Config := (Config s2)
                   \<lparr>ExtensionKey := defaultExtensionKey,
                    ExtensionCert := defaultExtensionCert\<rparr>\<rparr>"
    have e2: "Extensions (Config ?s2) = Extensions (Config d)"
      using f2 by (simp add: frame_def)
    have setE: "set (range_Extensions e) = dom (Extensions (Config ?s2))"
      using orderE e2 by (simp add: range_of_def)
    have v1: "PublicDirectory (Config s2) =
          (case Directories (Config d) ''public'' of None \<Rightarrow> ''tls'' | Some dir \<Rightarrow> dir)"
      "PrivateDirectory (Config s2) =
          (case Directories (Config d) ''private'' of
             None \<Rightarrow> ''tls/private'' | Some dir \<Rightarrow> dir)"
      using range_Directories_values [OF r1] setD
      by (auto simp: defaultPublicDirectory_def defaultPrivateDirectory_def
          split: option.splits)
    have part2: "\<exists>extName ext.
        find (\<lambda>k. k \<notin> {''key'', ''certificate''}) (range_Extensions e) = Some extName \<and>
        Extensions (Config d) extName = Some ext \<and>
        snd (GetConfig e (Some fn) s0) = Failure (InvalidExtensionEntry extName ext)"
      if "k \<in> dom (Extensions (Config d))" "k \<notin> {''key'', ''certificate''}"
    proof -
      from that setE e2 have "k \<in> set (range_Extensions e)" by simp
      from find_unknown [OF this that(2)] obtain extName where
        f: "find (\<lambda>k. k \<notin> {''key'', ''certificate''}) (range_Extensions e) = Some extName"
        by blast
      from range_Extensions_first_unknown [OF _ f, of ?s2] setE obtain ext where
        ext: "Extensions (Config ?s2) extName = Some ext"
        and out: "snd (for_range set_Extension (range_Extensions e) ?s2) =
          Failure (InvalidExtensionEntry extName ext)"
        by blast
      have "snd (GetConfig e (Some fn) s0) = Failure (InvalidExtensionEntry extName ext)"
        unfolding run r1 seq_simps using out by (rule snd_seq_Failure)
      with f ext e2 show ?thesis by auto
    qed
    have part3:
      "PublicDirectory (Config (fst (GetConfig e (Some fn) s0))) =
          (case Directories (Config d) ''public'' of None \<Rightarrow> ''tls'' | Some dir \<Rightarrow> dir) \<and>
        PrivateDirectory (Config (fst (GetConfig e (Some fn) s0))) =
          (case Directories (Config d) ''private'' of
             None \<Rightarrow> ''tls/private'' | Some dir \<Rightarrow> dir) \<and>
        ExtensionKey (Config (fst (GetConfig e (Some fn) s0))) =
          (case Extensions (Config d) ''key'' of None \<Rightarrow> ''key'' | Some ext \<Rightarrow> ext) \<and>
        ExtensionCert (Config (fst (GetConfig e (Some fn) s0))) =
          (case Extensions (Config d) ''certificate'' of
             None \<Rightarrow> ''pem'' | Some ext \<Rightarrow> ext)"
      if exts: "dom (Extensions (Config d)) \<subseteq> {''key'', ''certificate''}"
    proof -
      have "dom (Extensions (Config ?s2)) \<subseteq> {''key'', ''certificate''}"
        using exts e2 by simp
      from range_Extensions_total [OF this] obtain s3 where
        r2: "for_range set_Extension (range_Extensions e) ?s2 = (s3, Success)" by blast
      have v2: "PublicDirectory (Config s3) = PublicDirectory (Config s2)"
        "PrivateDirectory (Config s3) = PrivateDirectory (Config s2)"
        using range_Extensions_frame [OF r2] by simp_all
      have v3: "ExtensionKey (Config s3) =
            (case Extensions (Config d) ''key'' of None \<Rightarrow> ''key'' | Some ext \<Rightarrow> ext)"
        "ExtensionCert (Config s3) =
            (case Extensions (Config d) ''certificate'' of
               None \<Rightarrow> ''pem'' | Some ext \<Rightarrow> ext)"
        using range_Extensions_values [OF r2] setE e2
        by (auto simp: defaultExtensionKey_def defaultExtensionCert_def
            split: option.splits)
      have "Config (fst (GetConfig e (Some fn) s0)) = Config s3"
        unfolding run r1 seq_simps r2 by (rule Config_after_certificates)
      with v1 v2 v3 show ?thesis by simp
    qed
    from part1 part2 part3 show ?thesis by blast
  qed
  show ?thesis
  proof (cases "dom (Directories (Config d)) \<subseteq> {''public'', ''private''}")
    case True
    then show ?thesis by (rule rest)
  next
    case False
    with part1 show ?thesis by blast
  qed
qed

text \<open>
  The three cases: an unknown key \<open>backup\<close> under directories; an unknown key \<open>zip\<close>
  under extensions alone; and a document that overrides \<open>private\<close> and
  \<open>certificate\<close> and leaves \<open>public\<close> and \<open>key\<close> to their defaults.
\<close>

theorem GetConfig_directories_extensions_witness:
  "Directories (Config backup_and_zip) ''backup'' = Some ''bak'' \<and>
   snd (GetConfig (parsing_env backup_and_zip [''backup''] [''zip''] [] [])
          (Some ''certs.yaml'') zero_state) =
     Failure (InvalidDirectoryEntry ''backup'' ''certs.yaml'') \<and>
   Extensions (Config zip_doc) ''zip'' = Some ''z'' \<and>
   snd (GetConfig (parsing_env zip_doc [] [''zip''] [] [])
          (Some ''certs.yaml'') zero_state) =
     Failure (InvalidExtensionEntry ''zip'' ''z'') \<and>
   PublicDirectory (Config (fst (GetConfig
       (parsing_env overrides_doc [''private''] [''certificate''] [] [])
       (Some ''certs.yaml'') zero_state))) = ''tls'' \<and>
   PrivateDirectory (Config (fst (GetConfig
       (parsing_env overrides_doc [''private''] [''certificate''] [] [])
       (Some ''certs.yaml'') zero_state))) = ''secret'' \<and>
   ExtensionKey (Config (fst (GetConfig
       (parsing_env overrides_doc [''private''] [''certificate''] [] [])
       (Some ''certs.yaml'') zero_state))) = ''key'' \<and>
   ExtensionCert (Config (fst (GetConfig
       (parsing_env overrides_doc [''private''] [''certificate''] [] [])
       (Some ''certs.yaml'') zero_state))) = ''crt''"
proof -
  let ?e1 = "parsing_env backup_and_zip [''backup''] [''zip''] [] []"
  let ?e2 = "parsing_env zip_doc [] [''zip''] [] []"
  let ?e3 = "parsing_env overrides_doc [''private''] [''certificate''] [] []"
  have read: "ReadFile ?e1 (Clean ?e1 ''certs.yaml'') = Inr []"
    "ReadFile ?e2 (Clean ?e2 ''certs.yaml'') = Inr []"
    "ReadFile ?e3 (Clean ?e3 ''certs.yaml'') = Inr []"
    by (simp_all add: parsing_env_def)
  have parse: "Unmarshal ?e1 [] zero_state = (backup_and_zip, None)"
    "Unmarshal ?e2 [] zero_state = (zip_doc, None)"
    "Unmarshal ?e3 [] zero_state = (overrides_doc, None)"
    by (simp_all add: parsing_env_def)
  have orders1: "range_of (range_Directories ?e1) (Directories (Config backup_and_zip))"
    "range_of (range_Extensions ?e1) (Extensions (Config backup_and_zip))"
    by (auto simp: range_of_def parsing_env_def backup_and_zip_def zero_Type_def)
  have orders2: "range_of (range_Directories ?e2) (Directories (Config zip_doc))"
    "range_of (range_Extensions ?e2) (Extensions (Config zip_doc))"
    by (auto simp: range_of_def parsing_env_def zip_doc_def zero_Type_def)
  have orders3: "range_of (range_Directories ?e3) (Directories (Config overrides_doc))"
    "range_of (range_Extensions ?e3) (Extensions (Config overrides_doc))"
    by (auto simp: range_of_def parsing_env_def overrides_doc_def zero_Type_def
        split: if_splits)
  have doc1: "Directories (Config backup_and_zip) ''backup'' = Some ''bak''"
    by (simp add: backup_and_zip_def zero_Type_def)
  have doc2: "dom (Directories (Config zip_doc)) \<subseteq> {''public'', ''private''}"
    "Extensions (Config zip_doc) ''zip'' = Some ''z''"
    by (simp_all add: zip_doc_def zero_Type_def)
  have doc3: "dom (Directories (Config overrides_doc)) \<subseteq> {''public'', ''private''}"
    "dom (Extensions (Config overrides_doc)) \<subseteq> {''key'', ''certificate''}"
    "Directories (Config overrides_doc) ''public'' = None"
    "Directories (Config overrides_doc) ''private'' = Some ''secret''"
    "Extensions (Config overrides_doc) ''key'' = None"
    "Extensions (Config overrides_doc) ''certificate'' = Some ''crt''"
    by (simp_all add: overrides_doc_def zero_Type_def)
  have a: "snd (GetConfig ?e1 (Some ''certs.yaml'') zero_state) =
     Failure (InvalidDirectoryEntry ''backup'' ''certs.yaml'')"
    using GetConfig_directories_extensions
      [OF read(1) parse(1) orders1, of "''backup''"] doc1
    by (auto simp: parsing_env_def)
  have b: "snd (GetConfig ?e2 (Some ''certs.yaml'') zero_state) =
     Failure (InvalidExtensionEntry ''zip'' ''z'')"
    using GetConfig_directories_extensions
      [OF read(2) parse(2) orders2, of "''zip''"] doc2
    by (auto simp: parsing_env_def)
  have c: "PublicDirectory (Config (fst (GetConfig ?e3 (Some ''certs.yaml'') zero_state))) =
         ''tls''"
    "PrivateDirectory (Config (fst (GetConfig ?e3 (Some ''certs.yaml'') zero_state))) =
         ''secret''"
    "ExtensionKey (Config (fst (GetConfig ?e3 (Some ''certs.yaml'') zero_state))) = ''key''"
    "ExtensionCert (Config (fst (GetConfig ?e3 (Some ''certs.yaml'') zero_state))) = ''crt''"
    using GetConfig_directories_extensions [OF read(3) parse(3) orders3] doc3
    by simp_all
  from a b c doc1 doc2(2) show ?thesis by simp
qed

text \<open>
  The claim as first stated fails on a document with the unknown key \<open>backup\<close> under
  directories and the unknown key \<open>zip\<close> under extensions: the error names \<open>backup\<close>
  and not \<open>zip\<close>, and the call returns before the extensions get their defaults, so
  \<open>ExtensionKey\<close> is still empty although the document has no \<open>key\<close> entry.
\<close>

theorem GetConfig_directories_extensions_counterexample:
  "Extensions (Config backup_and_zip) ''zip'' = Some ''z'' \<and>
   Extensions (Config backup_and_zip) ''key'' = None \<and>
   snd (GetConfig (parsing_env backup_and_zip [''backup''] [''zip''] [] [])
          (Some ''certs.yaml'') zero_state) =
     Failure (InvalidDirectoryEntry ''backup'' ''certs.yaml'') \<and>
   Error (InvalidDirectoryEntry ''backup'' ''certs.yaml'') =
     ''invalid entry backup in directories section of config file certs.yaml'' \<and>
   ExtensionKey (Config (fst (GetConfig (parsing_env backup_and_zip [''backup''] [''zip''] [] [])
          (Some ''certs.yaml'') zero_state))) = [] \<and>
   ExtensionKey (Config (fst (GetConfig (parsing_env backup_and_zip [''backup''] [''zip''] [] [])
          (Some ''certs.yaml'') zero_state))) \<noteq> ''key''"
  by (simp add: run_defs backup_and_zip_def)

section \<open>The state after an error\<close>

lemma for_range_Failure:
  "for_range body ks s = (s', Failure err) \<Longrightarrow> \<exists>k x x'. body k x = (x', Failure err)"
proof (induction ks arbitrary: s)
  case Nil
  then show ?case by simp
next
  case (Cons k ks)
  obtain s1 o1 where b: "body k s = (s1, o1)" by (cases "body k s")
  show ?case
  proof (cases o1)
    case Success
    with b Cons.prems have "for_range body ks s1 = (s', Failure err)" by simp
    from Cons.IH [OF this] show ?thesis .
  next
    case (Failure e)
    with b Cons.prems show ?thesis by auto
  next
    case Panic
    with b Cons.prems show ?thesis by simp
  qed
qed

lemma set_Directory_not_ReadError:
  "set_Directory fn k s \<noteq> (s', Failure (ReadError a b))"
  by (simp add: set_Directory_def split: option.splits)

lemma set_Extension_not_ReadError:
  "set_Extension k s \<noteq> (s', Failure (ReadError a b))"
  by (simp add: set_Extension_def split: option.splits)

lemma setup_Certificate_not_ReadError:
  "setup_Certificate k s \<noteq> (s', Failure (ReadError a b))"
  by (simp add: setup_Certificate_def setup_Cert_def
      split: option.splits ref.splits sum.splits)

lemma link_Certificate_not_ReadError:
  "link_Certificate k s \<noteq> (s', Failure (ReadError a b))"
  by (simp add: link_Certificate_def Let_def split: option.splits ref.splits)

lemma loops_not_ReadError:
  "for_range (set_Directory fn) ks s \<noteq> (s', Failure (ReadError a b))"
  "for_range set_Extension ks s \<noteq> (s', Failure (ReadError a b))"
  "for_range setup_Certificate ks s \<noteq> (s', Failure (ReadError a b))"
  "for_range link_Certificate ks s \<noteq> (s', Failure (ReadError a b))"
proof -
  show "for_range (set_Directory fn) ks s \<noteq> (s', Failure (ReadError a b))"
    using for_range_Failure [of "set_Directory fn" ks s s' "ReadError a b"]
      set_Directory_not_ReadError by blast
  show "for_range set_Extension ks s \<noteq> (s', Failure (ReadError a b))"
    using for_range_Failure [of set_Extension ks s s' "ReadError a b"]
      set_Extension_not_ReadError by blast
  show "for_range setup_Certificate ks s \<noteq> (s', Failure (ReadError a b))"
    using for_range_Failure [of setup_Certificate ks s s' "ReadError a b"]
      setup_Certificate_not_ReadError by blast
  show "for_range link_Certificate ks s \<noteq> (s', Failure (ReadError a b))"
    using for_range_Failure [of link_Certificate ks s s' "ReadError a b"]
      link_Certificate_not_ReadError by blast
qed

lemma seq_not_Failure:
  assumes "r \<noteq> (s', Failure err)" and "\<And>x. f x \<noteq> (s', Failure err)"
  shows "seq r f \<noteq> (s', Failure err)"
  using assms by (cases r; cases "snd r") (auto simp: seq_def)

lemma GetConfig_parsed_not_ReadError:
  assumes "ReadFile e (Clean e name) = Inr configFile"
    and "Unmarshal e configFile s = (d, None)"
  shows "GetConfig e (Some name) s \<noteq> (s', Failure (ReadError a b))"
  unfolding GetConfig_parsed [OF assms]
  by (intro seq_not_Failure loops_not_ReadError)

text \<open>
  Claim C1, as amended. When \<open>GetConfig\<close> returns the error of reading the file, the
  state after the call is the state before it: the call had a file name, reading that
  file failed, and neither \<open>Config\<close> nor any certificate object was written. Nothing
  of the kind holds for the later errors: \<open>yaml.Unmarshal\<close> writes into the global
  \<open>Config\<close>, and the checks run on it in place.
\<close>

theorem GetConfig_ReadError_unchanged:
  assumes "snd (GetConfig e configFilename s) = Failure (ReadError fn err)"
  shows "fst (GetConfig e configFilename s) = s \<and>
         configFilename = Some fn \<and> ReadFile e (Clean e fn) = Inl err"
proof (cases configFilename)
  case None
  with assms show ?thesis by (simp add: GetConfig_def)
next
  case (Some name)
  show ?thesis
  proof (cases "ReadFile e (Clean e name)")
    case (Inl msg)
    with Some assms show ?thesis by (simp add: GetConfig_def)
  next
    case (Inr configFile)
    obtain d perr where u: "Unmarshal e configFile s = (d, perr)"
      by (cases "Unmarshal e configFile s")
    show ?thesis
    proof (cases perr)
      case (Some msg)
      with \<open>configFilename = Some name\<close> Inr u assms show ?thesis
        by (simp add: GetConfig_def)
    next
      case None
      have "GetConfig e (Some name) s =
          (fst (GetConfig e (Some name) s), Failure (ReadError fn err))"
        using assms \<open>configFilename = Some name\<close> by (simp add: prod_eq_iff)
      with GetConfig_parsed_not_ReadError [OF Inr u [unfolded None]]
      show ?thesis by blast
    qed
  qed
qed

text \<open>A file that cannot be read, with scenario A in \<open>Config\<close> from before.\<close>

theorem GetConfig_ReadError_unchanged_witness:
  "snd (GetConfig unreadable_env (Some ''certs.yaml'') scenario_A) =
     Failure (ReadError ''certs.yaml'' ''no such file or directory'') \<and>
   fst (GetConfig unreadable_env (Some ''certs.yaml'') scenario_A) = scenario_A"
proof -
  have "snd (GetConfig unreadable_env (Some ''certs.yaml'') scenario_A) =
     Failure (ReadError ''certs.yaml'' ''no such file or directory'')"
    by (simp add: GetConfig_def unreadable_env_def)
  with GetConfig_ReadError_unchanged [OF this] show ?thesis by simp
qed

text \<open>
  The claim as first stated fails on scenario D, from the state of a fresh process: the
  call returns the missing-issuer error for \<open>web\<close>, and the state it leaves is not
  the one before. \<open>Config\<close> holds the parsed document with the default directory
  \<open>tls\<close>, and the certificate \<open>root\<close> is resolved (a self-signed CA).
\<close>

theorem GetConfig_error_counterexample:
  "snd (GetConfig (parsing_env scenario_D [] [] [''root'', ''web''] [''root'', ''web''])
          (Some ''certs.yaml'') zero_state) = Failure (MissingIssuer ''web'' ''ca'') \<and>
   fst (GetConfig (parsing_env scenario_D [] [] [''root'', ''web''] [''root'', ''web''])
          (Some ''certs.yaml'') zero_state) \<noteq> zero_state \<and>
   PublicDirectory (Config zero_state) = [] \<and>
   PublicDirectory (Config (fst (GetConfig
       (parsing_env scenario_D [] [] [''root'', ''web''] [''root'', ''web''])
       (Some ''certs.yaml'') zero_state))) = ''tls'' \<and>
   Certificates (Config (fst (GetConfig
       (parsing_env scenario_D [] [] [''root'', ''web''] [''root'', ''web''])
       (Some ''certs.yaml'') zero_state))) ''root'' = Some (Addr 0) \<and>
   IsCA (heap (fst (GetConfig
       (parsing_env scenario_D [] [] [''root'', ''web''] [''root'', ''web''])
       (Some ''certs.yaml'') zero_state)) 0) \<and>
   IsSelfSigned (heap (fst (GetConfig
       (parsing_env scenario_D [] [] [''root'', ''web''] [''root'', ''web''])
       (Some ''certs.yaml'') zero_state)) 0)"
proof -
  let ?r = "GetConfig (parsing_env scenario_D [] [] [''root'', ''web''] [''root'', ''web''])
          (Some ''certs.yaml'') zero_state"
  have out: "snd ?r = Failure (MissingIssuer ''web'' ''ca'')"
    by (simp add: run_defs scenario_D_def)
  have pub: "PublicDirectory (Config (fst ?r)) = ''tls''"
    by (simp add: run_defs scenario_D_def defaultPublicDirectory_def)
  have zero: "PublicDirectory (Config zero_state) = []"
    by (simp add: zero_state_def zero_Type_def)
  have root: "Certificates (Config (fst ?r)) ''root'' = Some (Addr 0)"
    "IsCA (heap (fst ?r) 0)" "IsSelfSigned (heap (fst ?r) 0)"
    by (simp_all add: run_defs scenario_D_def)
  have changed: "fst ?r \<noteq> zero_state"
  proof
    assume "fst ?r = zero_state"
    then have "PublicDirectory (Config (fst ?r)) = PublicDirectory (Config zero_state)"
      by (rule arg_cong)
    with pub zero show False by simp
  qed
  from out changed zero pub root show ?thesis by (intro conjI)
qed

end
